theory Spec2Isabelle
  imports Complex_Main "HOL-Library.AList"
begin

section \<open>Python values, errors and the configuration dictionary\<close>

text \<open>
  The development embeds \<^verbatim>\<open>wm/model/unet/unet_model.py\<close>: the class \<^verbatim>\<open>UnetModel\<close> with its
  constructor, \<^verbatim>\<open>train_on_batch\<close>, \<^verbatim>\<open>validate_on_batch\<close>, \<^verbatim>\<open>__str__\<close> and \<^verbatim>\<open>__repr__\<close>.

  Exceptions are values of the type \<open>error\<close>; a call that may raise returns
  \<open>error + 'a\<close>, and a method that mutates the object returns the object next to its
  result, so that what an exception leaves behind is visible.
\<close>

datatype error = KeyError string | IndexError | TypeError | ValueError | RuntimeError

text \<open>A configuration value is opaque to the class, except where it is used as a number.\<close>

datatype cfgval = CNum real | CStr string | CList "cfgval list"

type_synonym config = "string \<rightharpoonup> cfgval"

text \<open>\<^verbatim>\<open>config[k]\<close> raises KeyError on a missing key; \<^verbatim>\<open>config.get(k, d)\<close> does not.\<close>

definition getitem :: "config \<Rightarrow> string \<Rightarrow> error + cfgval" where
  "getitem cfg k = (case cfg k of None \<Rightarrow> Inl (KeyError k) | Some v \<Rightarrow> Inr v)"

definition get_default :: "config \<Rightarrow> string \<Rightarrow> cfgval \<Rightarrow> cfgval" where
  "get_default cfg k d = (case cfg k of None \<Rightarrow> d | Some v \<Rightarrow> v)"

definition bindE :: "error + 'a \<Rightarrow> ('a \<Rightarrow> error + 'b) \<Rightarrow> error + 'b" where
  "bindE m f = (case m of Inl e \<Rightarrow> Inl e | Inr v \<Rightarrow> f v)"

section \<open>Scalars and tensors\<close>

text \<open>
  A scalar result (a zero-dimensional tensor, a numpy float) is a real number, or \<open>None\<close>
  when the floating-point value is not a number: the mean of an empty tensor and a
  division by zero give nan, and nan is absorbing for the arithmetic used here.
  Rounding error and overflow of the floating-point formats are not modelled.
\<close>

type_synonym scalar = "real option"

definition scalar_add :: "scalar \<Rightarrow> scalar \<Rightarrow> scalar" where
  "scalar_add x y = (case x of None \<Rightarrow> None | Some a \<Rightarrow> (case y of None \<Rightarrow> None | Some b \<Rightarrow> Some (a + b)))"

text \<open>\<^verbatim>\<open>w * t\<close> for a configuration value \<open>w\<close> and a zero-dimensional tensor \<open>t\<close>.\<close>

definition scalar_mul :: "cfgval \<Rightarrow> scalar \<Rightarrow> error + scalar" where
  "scalar_mul w x = (case w of CNum a \<Rightarrow> Inr (map_option (\<lambda>v. a * v) x) | _ \<Rightarrow> Inl TypeError)"

definition the_num :: "cfgval \<Rightarrow> real" where
  "the_num w = (case w of CNum a \<Rightarrow> a | _ \<Rightarrow> 0)"

text \<open>A tensor is its shape and its elements in row-major order.\<close>

record tensor =
  shape :: "nat list"
  data :: "real list"

definition wf_tensor :: "tensor \<Rightarrow> bool" where
  "wf_tensor t = (length (data t) = prod_list (shape t))"

text \<open>\<^verbatim>\<open>t.shape[i]\<close>: indexing the shape tuple out of range raises IndexError.\<close>

definition shape_at :: "tensor \<Rightarrow> nat \<Rightarrow> error + nat" where
  "shape_at t i = (if i < length (shape t) then Inr (shape t ! i) else Inl IndexError)"

text \<open>
  \<^verbatim>\<open>torch.full(size, fill_value)\<close>. The class fills its label tensors with the integers 1
  and 0; they are taken as floating-point tensors, which is what the loss function needs
  and what the PyTorch releases the code was written for return.
\<close>

definition full :: "nat list \<Rightarrow> real \<Rightarrow> tensor" where
  "full s v = \<lparr>shape = s, data = replicate (prod_list s) v\<rparr>"

definition mean :: "real list \<Rightarrow> scalar" where
  "mean xs = (if xs = [] then None else Some (sum_list xs / real (length xs)))"

subsection \<open>Broadcasting\<close>

text \<open>
  Shapes are aligned at their last dimension; two extents are compatible when they are
  equal or one of them is 1.
\<close>

fun broadcast_rev :: "nat list \<Rightarrow> nat list \<Rightarrow> nat list option" where
  "broadcast_rev [] ys = Some ys"
| "broadcast_rev xs [] = Some xs"
| "broadcast_rev (x # xs) (y # ys) =
     (if x = y \<or> y = 1 then map_option ((#) x) (broadcast_rev xs ys)
      else if x = 1 then map_option ((#) y) (broadcast_rev xs ys)
      else None)"

definition broadcast_shapes :: "nat list \<Rightarrow> nat list \<Rightarrow> nat list option" where
  "broadcast_shapes a b = map_option rev (broadcast_rev (rev a) (rev b))"

text \<open>
  \<open>expand_index s t\<close> lists, for every position of a tensor of shape \<open>t\<close> in row-major
  order, the position it reads in a tensor of shape \<open>s\<close> (of the same rank) expanded to
  \<open>t\<close>.
\<close>

fun expand_index :: "nat list \<Rightarrow> nat list \<Rightarrow> nat list" where
  "expand_index [] [] = [0]"
| "expand_index (a # as) (b # bs) =
     concat (map (\<lambda>i. map (\<lambda>j. (if a = 1 then 0 else i) * prod_list as + j) (expand_index as bs)) [0..<b])"
| "expand_index _ _ = []"

definition pad_shape :: "nat \<Rightarrow> nat list \<Rightarrow> nat list" where
  "pad_shape n s = replicate (n - length s) 1 @ s"

definition expand :: "tensor \<Rightarrow> nat list \<Rightarrow> tensor" where
  "expand t s = \<lparr>shape = s, data = map (\<lambda>i. data t ! i) (expand_index (pad_shape (length s) (shape t)) s)\<rparr>"

text \<open>
  \<^verbatim>\<open>torch.broadcast_tensors\<close> and numpy's binary operators: tensors of one shape are taken
  as they are, tensors of compatible shapes are expanded to the common shape.
\<close>

definition broadcast_tensors :: "tensor \<Rightarrow> tensor \<Rightarrow> (tensor \<times> tensor) option" where
  "broadcast_tensors a b =
     (if shape a = shape b then Some (a, b)
      else case broadcast_shapes (shape a) (shape b) of
             None \<Rightarrow> None
           | Some s \<Rightarrow> Some (expand a s, expand b s))"

text \<open>The gradient of an expanded tensor flows back to the position it was read from.\<close>

definition unbroadcast :: "tensor \<Rightarrow> nat list \<Rightarrow> real list \<Rightarrow> real list" where
  "unbroadcast t s g =
     (if shape t = s then g
      else map (\<lambda>j. sum_list (map snd (filter (\<lambda>p. fst p = j)
                   (zip (expand_index (pad_shape (length s) (shape t)) s) g))))
               [0..<length (data t)])"

subsection \<open>The loss functions of torch.nn.functional\<close>

text \<open>
  \<^verbatim>\<open>binary_cross_entropy_with_logits(input, target)\<close> with the default mean reduction. It
  raises ValueError unless the two sizes are equal. The element loss is
  \<open>(1 - y) * x + ln (1 + exp (- x))\<close>, which torch computes in a numerically stable form.
\<close>

definition bce_elem :: "real \<Rightarrow> real \<Rightarrow> real" where
  "bce_elem x y = (1 - y) * x + ln (1 + exp (- x))"

definition binary_cross_entropy_with_logits :: "tensor \<Rightarrow> tensor \<Rightarrow> error + scalar" where
  "binary_cross_entropy_with_logits input target =
     (if shape target \<noteq> shape input then Inl ValueError
      else Inr (mean (map2 bce_elem (data input) (data target))))"

text \<open>Its gradient with respect to the input: \<open>(sigmoid x - y) / n\<close> at every element.\<close>

definition bce_grad :: "tensor \<Rightarrow> tensor \<Rightarrow> real list" where
  "bce_grad input target =
     map2 (\<lambda>x y. (1 / (1 + exp (- x)) - y) / real (length (data input))) (data input) (data target)"

text \<open>
  \<^verbatim>\<open>mse_loss(input, target)\<close> with the default mean reduction. Sizes that differ are
  broadcast (with a warning); sizes that cannot be broadcast raise RuntimeError.
\<close>

definition mse_loss :: "tensor \<Rightarrow> tensor \<Rightarrow> error + scalar" where
  "mse_loss input target =
     (case broadcast_tensors input target of
        None \<Rightarrow> Inl RuntimeError
      | Some (a, b) \<Rightarrow> Inr (mean (map2 (\<lambda>x y. (x - y)\<^sup>2) (data a) (data b))))"

text \<open>Its gradient with respect to the input, defined where the loss is.\<close>

definition mse_grad :: "tensor \<Rightarrow> tensor \<Rightarrow> real list" where
  "mse_grad input target =
     (case broadcast_tensors input target of
        None \<Rightarrow> []
      | Some (a, b) \<Rightarrow>
          unbroadcast input (shape a)
            (map2 (\<lambda>x y. 2 * (x - y) / real (length (data a))) (data a) (data b)))"

subsection \<open>The numpy operations of the bitwise error\<close>

text \<open>\<^verbatim>\<open>ndarray.round()\<close> rounds to the nearest integer, a half to the even neighbour.\<close>

definition np_round :: "real \<Rightarrow> real" where
  "np_round x =
     (let f = \<lfloor>x\<rfloor>; d = x - of_int f
      in if d < 1 / 2 then of_int f
         else if 1 / 2 < d then of_int f + 1
         else if even f then of_int f else of_int f + 1)"

definition np_clip :: "real \<Rightarrow> real \<Rightarrow> real \<Rightarrow> real" where
  "np_clip lo hi x = min hi (max lo x)"

text \<open>\<^verbatim>\<open>a - b\<close> on arrays: broadcasting, ValueError when the shapes are incompatible.\<close>

definition np_subtract :: "tensor \<Rightarrow> tensor \<Rightarrow> error + tensor" where
  "np_subtract a b =
     (case broadcast_tensors a b of
        None \<Rightarrow> Inl ValueError
      | Some (x, y) \<Rightarrow> Inr \<lparr>shape = shape x, data = map2 (-) (data x) (data y)\<rparr>)"

text \<open>A numpy float divided by a Python int: dividing by zero warns and gives nan or inf.\<close>

definition np_divide :: "real \<Rightarrow> nat \<Rightarrow> scalar" where
  "np_divide s n = (if n = 0 then None else Some (s / real n))"

text \<open>
  Lines 91 to 93 and 144 to 146 of the source:
  \<^verbatim>\<open>decoded_rounded = decoded_messages.detach().cpu().numpy().round().clip(0, 1)\<close>
  \<^verbatim>\<open>bitwise_avg_err = np.sum(np.abs(decoded_rounded - messages...)) / (batch_size * messages.shape[1])\<close>
\<close>

definition decoded_rounded :: "tensor \<Rightarrow> tensor" where
  "decoded_rounded decoded_messages =
     \<lparr>shape = shape decoded_messages, data = map (\<lambda>x. np_clip 0 1 (np_round x)) (data decoded_messages)\<rparr>"

definition bitwise_avg_err :: "nat \<Rightarrow> tensor \<Rightarrow> tensor \<Rightarrow> error + scalar" where
  "bitwise_avg_err batch_size decoded_messages messages =
     bindE (np_subtract (decoded_rounded decoded_messages) messages) (\<lambda>diff.
     bindE (shape_at messages 1) (\<lambda>message_length.
     Inr (np_divide (sum_list (map abs (data diff))) (batch_size * message_length))))"


section \<open>The model object and its collaborators\<close>

text \<open>
  A sub-model (\<^verbatim>\<open>torch.nn.Module\<close>) is its parameters, the gradient accumulated in their
  \<^verbatim>\<open>.grad\<close> fields and its train/eval flag. Parameters and gradients are vectors of an
  additive type \<open>'p\<close>; a gradient that has not been set and a zero gradient are the
  same value \<open>0\<close>. Buffers that a forward pass in training mode may update (running
  statistics) are not parameters and are not modelled.
\<close>

record 'p module =
  params :: 'p
  grad :: 'p
  training :: bool

text \<open>
  The calls that clear, compute and apply gradients are recorded, in program order, in
  the field \<open>calls\<close>. It is not a field of the Python object: it is the history the
  proofs talk about.
\<close>

datatype net = EncDec | Discrim

datatype disc_input = CoverImages | EncodedDetached | EncodedImages

datatype loss_id = DLossOnCover | DLossOnEncoded | GLoss

datatype call =
    ZeroGrad net
  | DiscForward disc_input
  | EncDecForward
  | Backward loss_id
  | Step net

record ('p, 'o) UnetModel =
  device :: string
  encoder_decoder :: "'p module"
  discriminator :: "'p module"
  optimizer_enc_dec :: 'o
  optimizer_discrim :: 'o
  config :: config
  cover_label :: real
  encoded_label :: real
  tb_logger :: "cfgval option"
  calls :: "call list"

text \<open>The members of the enumeration \<^verbatim>\<open>wm.train.loss_names.LossNames\<close> the class uses.\<close>

datatype LossNames =
  unet_loss | encoder_mse | decoder_mse | bitwise | gen_adv_bce | discr_cov_bce | discr_enc_bce

text \<open>
  The collaborators are not part of the class: the noise layer, the two networks, the
  Adam optimizer and the values of the enumeration are parameters of the model. A
  network is a function of its parameters, its train/eval flag and its inputs (a random
  choice inside a collaborator is not modelled), and a constructor or a forward pass may
  raise. The backward pass of a network maps the
  gradient of a loss with respect to its outputs to the gradient with respect to its
  parameters (and, for the discriminator, to its input), as autograd does.
\<close>

record ('p, 'o, 'n) collaborators =
  torch_device :: "cfgval \<Rightarrow> error + string"
  Noiser :: "cfgval \<Rightarrow> string \<Rightarrow> error + 'n"
  UnetEncoderDecoder ::
    "cfgval \<Rightarrow> 'n \<Rightarrow> cfgval \<Rightarrow> cfgval \<Rightarrow> cfgval \<Rightarrow> cfgval \<Rightarrow> cfgval \<Rightarrow> string \<Rightarrow> error + 'p"
  Discriminator :: "cfgval \<Rightarrow> cfgval \<Rightarrow> string \<Rightarrow> error + 'p"
  Adam :: "'p \<Rightarrow> 'o"
  adam_step :: "'o \<Rightarrow> 'p \<Rightarrow> 'p \<Rightarrow> 'o \<times> 'p"
  encdec_forward :: "'p \<Rightarrow> bool \<Rightarrow> tensor \<Rightarrow> tensor \<Rightarrow> error + tensor \<times> tensor \<times> tensor"
  encdec_backward :: "'p \<Rightarrow> bool \<Rightarrow> tensor \<Rightarrow> tensor \<Rightarrow> real list \<Rightarrow> real list \<Rightarrow> 'p"
  disc_forward :: "'p \<Rightarrow> bool \<Rightarrow> tensor \<Rightarrow> error + tensor"
  disc_backward :: "'p \<Rightarrow> bool \<Rightarrow> tensor \<Rightarrow> real list \<Rightarrow> 'p \<times> real list"
  encdec_str :: "'p module \<Rightarrow> string"
  loss_name :: "LossNames \<Rightarrow> string"

definition zero_grad :: "('p::zero) module \<Rightarrow> 'p module" where
  "zero_grad m = m\<lparr>grad := 0\<rparr>"

definition accumulate :: "('p::plus) \<Rightarrow> 'p module \<Rightarrow> 'p module" where
  "accumulate g m = m\<lparr>grad := grad m + g\<rparr>"

definition log_call :: "call \<Rightarrow> ('p, 'o) UnetModel \<Rightarrow> ('p, 'o) UnetModel" where
  "log_call c self = self\<lparr>calls := calls self @ [c]\<rparr>"

section \<open>Construction\<close>

text \<open>
  \<^verbatim>\<open>UnetModel.__init__(self, config, **kwargs)\<close>, lines 13 to 34. The keys are read in
  the order of the source; \<open>tb\<close> is \<^verbatim>\<open>kwargs.pop('tb_logger', None)\<close>. A new module is
  in training mode.
\<close>

definition init ::
  "('p::zero, 'o, 'n) collaborators \<Rightarrow> config \<Rightarrow> cfgval option \<Rightarrow> error + ('p, 'o) UnetModel" where
  "init env cfg tb =
     bindE (getitem cfg ''device'') (\<lambda>dv.
     bindE (torch_device env dv) (\<lambda>dev.
     bindE (getitem cfg ''noise'') (\<lambda>nz.
     bindE (Noiser env nz dev) (\<lambda>noiser.
     bindE (getitem cfg ''main_command'') (\<lambda>variant.
     bindE (getitem cfg ''message'') (\<lambda>message_length.
     bindE (getitem cfg ''encoder_blocks'') (\<lambda>encoder_down_blocks.
     bindE (getitem cfg ''decoder_blocks'') (\<lambda>decoder_blocks.
     bindE (getitem cfg ''decoder_channels'') (\<lambda>decoder_inner_channels.
     bindE (getitem cfg ''decoder_block_type'') (\<lambda>decoder_block_type.
     bindE (UnetEncoderDecoder env variant noiser message_length encoder_down_blocks
              decoder_blocks decoder_inner_channels decoder_block_type dev) (\<lambda>ep.
     bindE (getitem cfg ''discriminator_channels'') (\<lambda>inner_channels.
     bindE (getitem cfg ''discriminator_blocks'') (\<lambda>block_count.
     bindE (Discriminator env inner_channels block_count dev) (\<lambda>dp.
     Inr \<lparr>device = dev,
          encoder_decoder = \<lparr>params = ep, grad = 0, training = True\<rparr>,
          discriminator = \<lparr>params = dp, grad = 0, training = True\<rparr>,
          optimizer_enc_dec = Adam env ep,
          optimizer_discrim = Adam env dp,
          config = cfg,
          cover_label = 1,
          encoded_label = 0,
          tb_logger = tb,
          calls = []\<rparr>))))))))))))))"

text \<open>The keys the constructor reads, in the order it reads them.\<close>

definition init_keys :: "string list" where
  "init_keys = [''device'', ''noise'', ''main_command'', ''message'', ''encoder_blocks'',
     ''decoder_blocks'', ''decoder_channels'', ''decoder_block_type'',
     ''discriminator_channels'', ''discriminator_blocks'']"

section \<open>The joint loss and the loss dictionary\<close>

text \<open>
  Lines 85 to 86 and 141 to 142:
  \<^verbatim>\<open>g_loss = self.config['adv_loss_weight'] * g_loss_adv + self.config['enc_loss_weight'] * g_loss_enc + self.config.get('dec_loss_weight', 1) * g_loss_dec\<close>
  evaluated from left to right.
\<close>

definition joint_loss :: "config \<Rightarrow> scalar \<Rightarrow> scalar \<Rightarrow> scalar \<Rightarrow> error + scalar" where
  "joint_loss cfg g_loss_adv g_loss_enc g_loss_dec =
     bindE (getitem cfg ''adv_loss_weight'') (\<lambda>wa.
     bindE (scalar_mul wa g_loss_adv) (\<lambda>a.
     bindE (getitem cfg ''enc_loss_weight'') (\<lambda>we.
     bindE (scalar_mul we g_loss_enc) (\<lambda>b.
     bindE (scalar_mul (get_default cfg ''dec_loss_weight'' (CNum 1)) g_loss_dec) (\<lambda>c.
     Inr (scalar_add (scalar_add a b) c))))))"

text \<open>
  A dictionary display inserts its items in order: a key that is there already keeps
  its place and takes the new value. \<^verbatim>\<open>OrderedDict\<close> keeps that order.
\<close>

definition OrderedDict :: "('k \<times> 'v) list \<Rightarrow> ('k \<times> 'v) list" where
  "OrderedDict items = foldl (\<lambda>d (k, v). AList.update k v d) [] items"

definition losses_dict ::
  "('p, 'o, 'n) collaborators \<Rightarrow> scalar \<Rightarrow> scalar \<Rightarrow> scalar \<Rightarrow> scalar \<Rightarrow> scalar \<Rightarrow> scalar \<Rightarrow> scalar
     \<Rightarrow> (string \<times> scalar) list" where
  "losses_dict env g_loss g_loss_enc g_loss_dec bitwise_avg g_loss_adv d_loss_on_cover d_loss_on_encoded =
     OrderedDict
       [(loss_name env unet_loss, g_loss),
        (loss_name env encoder_mse, g_loss_enc),
        (loss_name env decoder_mse, g_loss_dec),
        (loss_name env bitwise, bitwise_avg),
        (loss_name env gen_adv_bce, g_loss_adv),
        (loss_name env discr_cov_bce, d_loss_on_cover),
        (loss_name env discr_enc_bce, d_loss_on_encoded)]"

section \<open>Training on a batch\<close>

text \<open>
  \<^verbatim>\<open>loss.backward()\<close> for a discriminator loss \<open>bce(D(x), target)\<close> whose input \<open>x\<close> carries
  no gradient (the cover images, or the detached encoded images): the gradient with
  respect to the discriminator's parameters. The gradient with respect to \<open>x\<close> goes
  nowhere.
\<close>

definition d_loss_backward ::
  "('p, 'o, 'n) collaborators \<Rightarrow> 'p \<Rightarrow> bool \<Rightarrow> tensor \<Rightarrow> tensor \<Rightarrow> tensor \<Rightarrow> 'p" where
  "d_loss_backward env p mode x logits target = fst (disc_backward env p mode x (bce_grad logits target))"

text \<open>
  \<^verbatim>\<open>g_loss.backward()\<close>: the gradient of the joint loss with respect to the parameters of
  the discriminator and of the encoder-decoder. The adversarial term reaches the
  encoder-decoder through the discriminator's input, the two mean squared errors reach
  it directly. It runs after the joint loss has been composed, so the two required
  weights are in the configuration and are numbers.
\<close>

definition g_loss_backward ::
  "('p, 'o, 'n) collaborators \<Rightarrow> config \<Rightarrow> 'p \<Rightarrow> bool \<Rightarrow> 'p \<Rightarrow> bool \<Rightarrow> tensor \<Rightarrow> tensor
     \<Rightarrow> tensor \<times> tensor \<times> tensor \<Rightarrow> tensor \<Rightarrow> tensor \<Rightarrow> 'p \<times> 'p" where
  "g_loss_backward env cfg pd mode_d pe mode_e images messages outs logits target =
     (let encoded_images = fst outs;
          decoded_messages = snd (snd outs);
          wa = the_num (get_default cfg ''adv_loss_weight'' (CNum 0));
          we = the_num (get_default cfg ''enc_loss_weight'' (CNum 0));
          wd = the_num (get_default cfg ''dec_loss_weight'' (CNum 1));
          through_disc = disc_backward env pd mode_d encoded_images
                           (map (\<lambda>g. wa * g) (bce_grad logits target))
      in (fst through_disc,
          encdec_backward env pe mode_e images messages
            (map2 (+) (snd through_disc) (map (\<lambda>g. we * g) (mse_grad encoded_images images)))
            (map (\<lambda>g. wd * g) (mse_grad decoded_messages messages))))"

text \<open>
  Lines 58 to 74, the discriminator phase. The gradient of the loss on the encoded
  images reaches the discriminator's parameters only: the discriminator is applied to
  \<^verbatim>\<open>encoded_images.detach()\<close>, so the gradient with respect to its input is dropped.
  The result carries what the rest of the method uses.
\<close>

definition discriminator_phase ::
  "('p::{zero,plus}, 'o, 'n) collaborators \<Rightarrow> nat \<Rightarrow> tensor \<Rightarrow> tensor \<Rightarrow> ('p, 'o) UnetModel
     \<Rightarrow> (error + scalar \<times> (tensor \<times> tensor \<times> tensor) \<times> scalar) \<times> ('p, 'o) UnetModel" where
  "discriminator_phase env batch_size images messages self0 =
     (let self1 = log_call (ZeroGrad Discrim) (self0\<lparr>discriminator := zero_grad (discriminator self0)\<rparr>);
          d_target_label_cover = full [batch_size, 1] (cover_label self1);
          d_target_label_encoded = full [batch_size, 1] (encoded_label self1);
          self2 = log_call (DiscForward CoverImages) self1
      in case disc_forward env (params (discriminator self2)) (training (discriminator self2)) images of
           Inl e \<Rightarrow> (Inl e, self2)
         | Inr d_on_cover \<Rightarrow>
      (case binary_cross_entropy_with_logits d_on_cover d_target_label_cover of
           Inl e \<Rightarrow> (Inl e, self2)
         | Inr d_loss_on_cover \<Rightarrow>
      (let self3 = log_call (Backward DLossOnCover)
             (self2\<lparr>discriminator := accumulate
                (d_loss_backward env (params (discriminator self2)) (training (discriminator self2))
                   images d_on_cover d_target_label_cover)
                (discriminator self2)\<rparr>);
           self4 = log_call EncDecForward self3
       in case encdec_forward env (params (encoder_decoder self4)) (training (encoder_decoder self4))
                 images messages of
            Inl e \<Rightarrow> (Inl e, self4)
          | Inr (encoded_images, noised_images, decoded_messages) \<Rightarrow>
       (let self5 = log_call (DiscForward EncodedDetached) self4
        in case disc_forward env (params (discriminator self5)) (training (discriminator self5))
                  encoded_images of
             Inl e \<Rightarrow> (Inl e, self5)
           | Inr d_on_encoded \<Rightarrow>
        (case binary_cross_entropy_with_logits d_on_encoded d_target_label_encoded of
             Inl e \<Rightarrow> (Inl e, self5)
           | Inr d_loss_on_encoded \<Rightarrow>
        (let self6 = log_call (Backward DLossOnEncoded)
               (self5\<lparr>discriminator := accumulate
                  (d_loss_backward env (params (discriminator self5)) (training (discriminator self5))
                     encoded_images d_on_encoded d_target_label_encoded)
                  (discriminator self5)\<rparr>);
             stepped = adam_step env (optimizer_discrim self6) (params (discriminator self6))
                         (grad (discriminator self6));
             self7 = log_call (Step Discrim)
               (self6\<lparr>optimizer_discrim := fst stepped,
                      discriminator := (discriminator self6)\<lparr>params := snd stepped\<rparr>\<rparr>)
         in (Inr (d_loss_on_cover, (encoded_images, noised_images, decoded_messages), d_loss_on_encoded),
             self7)))))))"

text \<open>
  Lines 77 to 89, the generator phase, on the outputs of the one forward pass of the
  discriminator phase. \<^verbatim>\<open>g_loss.backward()\<close> sends the gradient of the joint loss through
  the discriminator (whose own gradient fields accumulate it as well) into the
  encoder-decoder. The result is \<open>(g_loss, g_loss_enc, g_loss_dec, g_loss_adv)\<close>.
\<close>

definition generator_phase ::
  "('p::{zero,plus}, 'o, 'n) collaborators \<Rightarrow> nat \<Rightarrow> tensor \<Rightarrow> tensor \<Rightarrow> tensor \<times> tensor \<times> tensor
     \<Rightarrow> ('p, 'o) UnetModel \<Rightarrow> (error + scalar \<times> scalar \<times> scalar \<times> scalar) \<times> ('p, 'o) UnetModel" where
  "generator_phase env batch_size images messages outs self0 =
     (let encoded_images = fst outs;
          decoded_messages = snd (snd outs);
          self1 = log_call (ZeroGrad EncDec) (self0\<lparr>encoder_decoder := zero_grad (encoder_decoder self0)\<rparr>);
          g_target_label_encoded = full [batch_size, 1] (cover_label self1);
          self2 = log_call (DiscForward EncodedImages) self1
      in case disc_forward env (params (discriminator self2)) (training (discriminator self2))
                encoded_images of
           Inl e \<Rightarrow> (Inl e, self2)
         | Inr d_on_encoded_for_enc \<Rightarrow>
      (case binary_cross_entropy_with_logits d_on_encoded_for_enc g_target_label_encoded of
           Inl e \<Rightarrow> (Inl e, self2)
         | Inr g_loss_adv \<Rightarrow>
      (case mse_loss encoded_images images of
           Inl e \<Rightarrow> (Inl e, self2)
         | Inr g_loss_enc \<Rightarrow>
      (case mse_loss decoded_messages messages of
           Inl e \<Rightarrow> (Inl e, self2)
         | Inr g_loss_dec \<Rightarrow>
      (case joint_loss (config self2) g_loss_adv g_loss_enc g_loss_dec of
           Inl e \<Rightarrow> (Inl e, self2)
         | Inr g_loss \<Rightarrow>
      (let grads = g_loss_backward env (config self2)
                     (params (discriminator self2)) (training (discriminator self2))
                     (params (encoder_decoder self2)) (training (encoder_decoder self2))
                     images messages outs d_on_encoded_for_enc g_target_label_encoded;
           self3 = log_call (Backward GLoss)
             (self2\<lparr>discriminator := accumulate (fst grads) (discriminator self2),
                    encoder_decoder := accumulate (snd grads) (encoder_decoder self2)\<rparr>);
           stepped = adam_step env (optimizer_enc_dec self3) (params (encoder_decoder self3))
                       (grad (encoder_decoder self3));
           self4 = log_call (Step EncDec)
             (self3\<lparr>optimizer_enc_dec := fst stepped,
                    encoder_decoder := (encoder_decoder self3)\<lparr>params := snd stepped\<rparr>\<rparr>)
       in (Inr (g_loss, g_loss_enc, g_loss_dec, g_loss_adv), self4)))))))"

text \<open>
  \<^verbatim>\<open>UnetModel.train_on_batch(self, images, messages)\<close>, lines 46 to 113. The result is the
  loss dictionary with the three tensors, or the exception raised, next to the object as
  the call leaves it.
\<close>

definition train_on_batch ::
  "('p::{zero,plus}, 'o, 'n) collaborators \<Rightarrow> ('p, 'o) UnetModel \<Rightarrow> tensor \<Rightarrow> tensor
     \<Rightarrow> (error + (string \<times> scalar) list \<times> (tensor \<times> tensor \<times> tensor)) \<times> ('p, 'o) UnetModel" where
  "train_on_batch env self images messages =
     (case shape_at images 0 of
        Inl e \<Rightarrow> (Inl e, self)
      | Inr batch_size \<Rightarrow>
     (let self1 = self\<lparr>encoder_decoder := (encoder_decoder self)\<lparr>training := True\<rparr>\<rparr>;
          self2 = self1\<lparr>discriminator := (discriminator self1)\<lparr>training := True\<rparr>\<rparr>
      in case discriminator_phase env batch_size images messages self2 of
           (Inl e, self3) \<Rightarrow> (Inl e, self3)
         | (Inr (d_loss_on_cover, outs, d_loss_on_encoded), self3) \<Rightarrow>
      (case generator_phase env batch_size images messages outs self3 of
           (Inl e, self4) \<Rightarrow> (Inl e, self4)
         | (Inr (g_loss, g_loss_enc, g_loss_dec, g_loss_adv), self4) \<Rightarrow>
      (case bitwise_avg_err batch_size (snd (snd outs)) messages of
           Inl e \<Rightarrow> (Inl e, self4)
         | Inr bitwise_avg \<Rightarrow>
           (Inr (losses_dict env g_loss g_loss_enc g_loss_dec bitwise_avg g_loss_adv
                   d_loss_on_cover d_loss_on_encoded, outs),
            self4)))))"

section \<open>Validating on a batch\<close>

text \<open>
  \<^verbatim>\<open>UnetModel.validate_on_batch(self, images, messages)\<close>, lines 117 to 157: the forward
  passes and the losses under \<^verbatim>\<open>torch.no_grad()\<close>, in evaluation mode.
\<close>

definition validate_on_batch ::
  "('p, 'o, 'n) collaborators \<Rightarrow> ('p, 'o) UnetModel \<Rightarrow> tensor \<Rightarrow> tensor
     \<Rightarrow> (error + (string \<times> scalar) list \<times> (tensor \<times> tensor \<times> tensor)) \<times> ('p, 'o) UnetModel" where
  "validate_on_batch env self images messages =
     (case shape_at images 0 of
        Inl e \<Rightarrow> (Inl e, self)
      | Inr batch_size \<Rightarrow>
     (let self1 = self\<lparr>encoder_decoder := (encoder_decoder self)\<lparr>training := False\<rparr>\<rparr>;
          self2 = self1\<lparr>discriminator := (discriminator self1)\<lparr>training := False\<rparr>\<rparr>;
          d_target_label_cover = full [batch_size, 1] (cover_label self2);
          d_target_label_encoded = full [batch_size, 1] (encoded_label self2);
          g_target_label_encoded = full [batch_size, 1] (cover_label self2);
          self3 = log_call (DiscForward CoverImages) self2
      in case disc_forward env (params (discriminator self3)) (training (discriminator self3)) images of
           Inl e \<Rightarrow> (Inl e, self3)
         | Inr d_on_cover \<Rightarrow>
      (case binary_cross_entropy_with_logits d_on_cover d_target_label_cover of
           Inl e \<Rightarrow> (Inl e, self3)
         | Inr d_loss_on_cover \<Rightarrow>
      (let self4 = log_call EncDecForward self3
       in case encdec_forward env (params (encoder_decoder self4)) (training (encoder_decoder self4))
                 images messages of
            Inl e \<Rightarrow> (Inl e, self4)
          | Inr (encoded_images, noised_images, decoded_messages) \<Rightarrow>
       (let self5 = log_call (DiscForward EncodedImages) self4
        in case disc_forward env (params (discriminator self5)) (training (discriminator self5))
                  encoded_images of
             Inl e \<Rightarrow> (Inl e, self5)
           | Inr d_on_encoded \<Rightarrow>
        (case binary_cross_entropy_with_logits d_on_encoded d_target_label_encoded of
             Inl e \<Rightarrow> (Inl e, self5)
           | Inr d_loss_on_encoded \<Rightarrow>
        (let self6 = log_call (DiscForward EncodedImages) self5
         in case disc_forward env (params (discriminator self6)) (training (discriminator self6))
                   encoded_images of
              Inl e \<Rightarrow> (Inl e, self6)
            | Inr d_on_encoded_for_enc \<Rightarrow>
         (case binary_cross_entropy_with_logits d_on_encoded_for_enc g_target_label_encoded of
              Inl e \<Rightarrow> (Inl e, self6)
            | Inr g_loss_adv \<Rightarrow>
         (case mse_loss encoded_images images of
              Inl e \<Rightarrow> (Inl e, self6)
            | Inr g_loss_enc \<Rightarrow>
         (case mse_loss decoded_messages messages of
              Inl e \<Rightarrow> (Inl e, self6)
            | Inr g_loss_dec \<Rightarrow>
         (case joint_loss (config self6) g_loss_adv g_loss_enc g_loss_dec of
              Inl e \<Rightarrow> (Inl e, self6)
            | Inr g_loss \<Rightarrow>
         (case bitwise_avg_err batch_size decoded_messages messages of
              Inl e \<Rightarrow> (Inl e, self6)
            | Inr bitwise_avg \<Rightarrow>
              (Inr (losses_dict env g_loss g_loss_enc g_loss_dec bitwise_avg g_loss_adv
                      d_loss_on_cover d_loss_on_encoded,
                    (encoded_images, noised_images, decoded_messages)),
               self6)))))))))))))"

section \<open>Display\<close>

text \<open>Lines 160 to 165: \<^verbatim>\<open>__str__\<close> and \<^verbatim>\<open>__repr__\<close> both return \<^verbatim>\<open>str(self.encoder_decoder)\<close>.\<close>

definition str_UnetModel :: "('p, 'o, 'n) collaborators \<Rightarrow> ('p, 'o) UnetModel \<Rightarrow> string" where
  "str_UnetModel env self = encdec_str env (encoder_decoder self)"

definition repr_UnetModel :: "('p, 'o, 'n) collaborators \<Rightarrow> ('p, 'o) UnetModel \<Rightarrow> string" where
  "repr_UnetModel env self = encdec_str env (encoder_decoder self)"

section \<open>What the collaborators promise\<close>

text \<open>
  The class checks no shape itself. The collaborators accept a batch when the images
  have a batch dimension, the messages have at least two dimensions, the discriminator
  scores a batch of \<open>n\<close> images with a tensor of shape \<open>(n, 1)\<close>, and the encoder-decoder
  returns encoded images shaped as the images and decoded messages shaped as the
  messages, whatever the parameters and the mode.
\<close>

definition accepts :: "('p, 'o, 'n) collaborators \<Rightarrow> tensor \<Rightarrow> tensor \<Rightarrow> bool" where
  "accepts env images messages \<longleftrightarrow>
     shape images \<noteq> [] \<and> 2 \<le> length (shape messages) \<and>
     (\<forall>p mode x. shape x \<noteq> [] \<longrightarrow>
        (\<exists>t. disc_forward env p mode x = Inr t \<and> shape t = [hd (shape x), 1] \<and> wf_tensor t)) \<and>
     (\<forall>p mode. \<exists>e nz d. encdec_forward env p mode images messages = Inr (e, nz, d)
        \<and> shape e = shape images \<and> wf_tensor e \<and> shape d = shape messages \<and> wf_tensor d)"



section \<open>A small instance\<close>

text \<open>
  One instance of the collaborators, small enough to run by hand: each network has one
  real parameter. The discriminator scores every image with its parameter; the
  encoder-decoder adds its parameter to every pixel and decodes every bit as its
  parameter; the optimizer subtracts the gradient and counts its steps; every constructor
  succeeds. The names of
  the losses are those of the dictionary kept as a comment on lines 95 to 103.
\<close>

definition tiny_disc_forward :: "real \<Rightarrow> bool \<Rightarrow> tensor \<Rightarrow> error + tensor" where
  "tiny_disc_forward p mode x = (case shape x of [] \<Rightarrow> Inl RuntimeError | n # _ \<Rightarrow> Inr (full [n, 1] p))"

definition tiny_encdec_forward :: "real \<Rightarrow> bool \<Rightarrow> tensor \<Rightarrow> tensor \<Rightarrow> error + tensor \<times> tensor \<times> tensor" where
  "tiny_encdec_forward p mode images messages =
     Inr (\<lparr>shape = shape images, data = map (\<lambda>x. x + p) (data images)\<rparr>,
          \<lparr>shape = shape images, data = map (\<lambda>x. x + p) (data images)\<rparr>,
          \<lparr>shape = shape messages, data = map (\<lambda>m. p) (data messages)\<rparr>)"

fun tiny_loss_name :: "LossNames \<Rightarrow> string" where
  "tiny_loss_name unet_loss = ''unet_loss    ''"
| "tiny_loss_name encoder_mse = ''encoder_mse  ''"
| "tiny_loss_name decoder_mse = ''dec_mse      ''"
| "tiny_loss_name bitwise = ''bitwise-error''"
| "tiny_loss_name gen_adv_bce = ''g_adv_bce    ''"
| "tiny_loss_name discr_cov_bce = ''d_cov_bce    ''"
| "tiny_loss_name discr_enc_bce = ''d_enc_bce    ''"

definition tiny_env :: "(real, nat, unit) collaborators" where
  "tiny_env =
     \<lparr>torch_device = (\<lambda>v. Inr (case v of CStr s \<Rightarrow> s | _ \<Rightarrow> ''cpu'')),
      Noiser = (\<lambda>nz dev. Inr ()),
      UnetEncoderDecoder = (\<lambda>variant noiser message_length eb db dc dt dev. Inr 0),
      Discriminator = (\<lambda>inner_channels block_count dev. Inr 0),
      Adam = (\<lambda>p. 0),
      adam_step = (\<lambda>n p g. (Suc n, p - g)),
      encdec_forward = tiny_encdec_forward,
      encdec_backward = (\<lambda>p mode images messages up_encoded up_decoded. sum_list up_encoded + sum_list up_decoded),
      disc_forward = tiny_disc_forward,
      disc_backward = (\<lambda>p mode x up. (sum_list up, replicate (length (data x)) 0)),
      encdec_str = (\<lambda>m. ''UnetEncoderDecoder''),
      loss_name = tiny_loss_name\<rparr>"

text \<open>A configuration with the ten keys the constructor reads and no loss weight.\<close>

definition bare_config :: config where
  "bare_config = map_of
     [(''device'', CStr ''cpu''), (''noise'', CList []), (''main_command'', CStr ''unet-conv''),
      (''message'', CNum 2), (''encoder_blocks'', CNum 1), (''decoder_blocks'', CNum 1),
      (''decoder_channels'', CNum 1), (''decoder_block_type'', CStr ''conv''),
      (''discriminator_channels'', CNum 1), (''discriminator_blocks'', CNum 1)]"

text \<open>The same with the two required weights, and then with a negative decoder weight.\<close>

definition tiny_config :: config where
  "tiny_config = bare_config(''adv_loss_weight'' \<mapsto> CNum 1, ''enc_loss_weight'' \<mapsto> CNum 1)"

definition negative_config :: config where
  "negative_config = tiny_config(''dec_loss_weight'' \<mapsto> CNum (- 4))"

definition new_model :: "config \<Rightarrow> (real, nat) UnetModel" where
  "new_model cfg =
     \<lparr>device = ''cpu'',
      encoder_decoder = \<lparr>params = 0, grad = 0, training = True\<rparr>,
      discriminator = \<lparr>params = 0, grad = 0, training = True\<rparr>,
      optimizer_enc_dec = 0,
      optimizer_discrim = 0,
      config = cfg,
      cover_label = 1,
      encoded_label = 0,
      tb_logger = None,
      calls = []\<rparr>"

text \<open>A batch of one image of two pixels and one message of two bits.\<close>

definition tiny_images :: tensor where
  "tiny_images = \<lparr>shape = [1, 1, 1, 2], data = [0, 1]\<rparr>"

definition tiny_messages :: tensor where
  "tiny_messages = \<lparr>shape = [1, 2], data = [1, 0]\<rparr>"

section \<open>The two phases, step by step\<close>

lemma bindE_simps [simp]: "bindE (Inl e) f = Inl e" "bindE (Inr v) f = f v"
  by (simp_all add: bindE_def)

lemma discriminator_phase_frame:
  assumes "discriminator_phase env n images messages s = (r, s')"
  shows "encoder_decoder s' = encoder_decoder s \<and> optimizer_enc_dec s' = optimizer_enc_dec s
       \<and> config s' = config s \<and> cover_label s' = cover_label s \<and> encoded_label s' = encoded_label s
       \<and> device s' = device s \<and> tb_logger s' = tb_logger s
       \<and> training (discriminator s') = training (discriminator s)"
  using assms
  by (auto simp add: discriminator_phase_def Let_def log_call_def zero_grad_def accumulate_def
      split: sum.splits prod.splits)

lemma generator_phase_frame:
  assumes "generator_phase env n images messages outs s = (r, s')"
  shows "params (discriminator s') = params (discriminator s) \<and> optimizer_discrim s' = optimizer_discrim s
       \<and> config s' = config s \<and> cover_label s' = cover_label s \<and> encoded_label s' = encoded_label s
       \<and> device s' = device s \<and> tb_logger s' = tb_logger s
       \<and> training (discriminator s') = training (discriminator s)
       \<and> training (encoder_decoder s') = training (encoder_decoder s)"
  using assms
  by (auto simp add: generator_phase_def Let_def log_call_def zero_grad_def accumulate_def
      split: sum.splits prod.splits)


lemma generator_phase_Inr:
  assumes "generator_phase env n images messages outs s = (Inr (g, ge, gd, ga), s')"
  shows "\<exists>d_on_encoded_for_enc.
      disc_forward env (params (discriminator s)) (training (discriminator s)) (fst outs) = Inr d_on_encoded_for_enc
    \<and> binary_cross_entropy_with_logits d_on_encoded_for_enc (full [n, 1] (cover_label s)) = Inr ga
    \<and> mse_loss (fst outs) images = Inr ge
    \<and> mse_loss (snd (snd outs)) messages = Inr gd
    \<and> joint_loss (config s) ga ge gd = Inr g
    \<and> grad (encoder_decoder s') =
         0 + snd (g_loss_backward env (config s) (params (discriminator s)) (training (discriminator s))
                    (params (encoder_decoder s)) (training (encoder_decoder s))
                    images messages outs d_on_encoded_for_enc (full [n, 1] (cover_label s)))
    \<and> grad (discriminator s') =
         grad (discriminator s)
           + fst (g_loss_backward env (config s) (params (discriminator s)) (training (discriminator s))
                    (params (encoder_decoder s)) (training (encoder_decoder s))
                    images messages outs d_on_encoded_for_enc (full [n, 1] (cover_label s)))
    \<and> (optimizer_enc_dec s', params (encoder_decoder s')) =
         adam_step env (optimizer_enc_dec s) (params (encoder_decoder s)) (grad (encoder_decoder s'))
    \<and> calls s' = calls s @ [ZeroGrad EncDec, DiscForward EncodedImages, Backward GLoss, Step EncDec]"
  using assms
  by (auto simp add: generator_phase_def Let_def log_call_def zero_grad_def accumulate_def
      split: sum.splits prod.splits)

lemma train_on_batch_Inr:
  assumes "train_on_batch env s images messages = (Inr (losses, outs), s')"
  shows "\<exists>n lc le g ge gd ga b s1.
      shape_at images 0 = Inr n
    \<and> discriminator_phase env n images messages
         (s\<lparr>encoder_decoder := (encoder_decoder s)\<lparr>training := True\<rparr>,
            discriminator := (discriminator s)\<lparr>training := True\<rparr>\<rparr>) = (Inr (lc, outs, le), s1)
    \<and> generator_phase env n images messages outs s1 = (Inr (g, ge, gd, ga), s')
    \<and> bitwise_avg_err n (snd (snd outs)) messages = Inr b
    \<and> losses = losses_dict env g ge gd b ga lc le"
  using assms
  by (auto simp add: train_on_batch_def Let_def split: sum.splits prod.splits)


section \<open>Running the small instance\<close>

lemma tiny_discriminator_phase:
  "discriminator_phase tiny_env 1 tiny_images tiny_messages (new_model cfg) =
     (Inr (Some (ln 2),
           (\<lparr>shape = [1, 1, 1, 2], data = [0, 1]\<rparr>, \<lparr>shape = [1, 1, 1, 2], data = [0, 1]\<rparr>,
            \<lparr>shape = [1, 2], data = [0, 0]\<rparr>),
           Some (ln 2)),
      (new_model cfg)\<lparr>optimizer_discrim := 1,
         calls := [ZeroGrad Discrim, DiscForward CoverImages, Backward DLossOnCover,
           EncDecForward, DiscForward EncodedDetached, Backward DLossOnEncoded, Step Discrim]\<rparr>)"
  by (simp add: discriminator_phase_def Let_def log_call_def zero_grad_def accumulate_def tiny_env_def
      new_model_def tiny_disc_forward_def tiny_encdec_forward_def tiny_images_def tiny_messages_def
      full_def binary_cross_entropy_with_logits_def d_loss_backward_def bce_grad_def mean_def bce_elem_def)

lemma joint_loss_numbers:
  assumes "cfg ''adv_loss_weight'' = Some (CNum wa)" "cfg ''enc_loss_weight'' = Some (CNum we)"
    and "get_default cfg ''dec_loss_weight'' (CNum 1) = CNum wd"
  shows "joint_loss cfg (Some a) (Some b) (Some c) = Inr (Some (wa * a + we * b + wd * c))"
  using assms by (simp add: joint_loss_def getitem_def scalar_mul_def scalar_add_def)

lemma tiny_generator_phase:
  assumes "cfg ''adv_loss_weight'' = Some (CNum wa)" "cfg ''enc_loss_weight'' = Some (CNum we)"
    and "get_default cfg ''dec_loss_weight'' (CNum 1) = CNum wd"
  shows "generator_phase tiny_env 1 tiny_images tiny_messages
      (\<lparr>shape = [1, 1, 1, 2], data = [0, 1]\<rparr>, \<lparr>shape = [1, 1, 1, 2], data = [0, 1]\<rparr>,
            \<lparr>shape = [1, 2], data = [0, 0]\<rparr>)
      ((new_model cfg)\<lparr>optimizer_discrim := 1, calls := cs\<rparr>) =
     (Inr (Some (wa * ln 2 + we * 0 + wd * (1 / 2)), Some 0, Some (1 / 2), Some (ln 2)),
      (new_model cfg)\<lparr>optimizer_discrim := 1, optimizer_enc_dec := 1,
         encoder_decoder := \<lparr>params = wd, grad = - wd, training = True\<rparr>,
         discriminator := \<lparr>params = 0, grad = - (wa / 2), training = True\<rparr>,
         calls := cs @ [ZeroGrad EncDec, DiscForward EncodedImages, Backward GLoss, Step EncDec]\<rparr>)"
  using assms
  by (simp add: generator_phase_def Let_def log_call_def zero_grad_def accumulate_def tiny_env_def
      new_model_def tiny_disc_forward_def tiny_images_def tiny_messages_def
      full_def binary_cross_entropy_with_logits_def g_loss_backward_def bce_grad_def mean_def bce_elem_def
      mse_loss_def mse_grad_def broadcast_tensors_def unbroadcast_def joint_loss_numbers get_default_def the_num_def)

lemma tiny_bitwise:
  "bitwise_avg_err 1 \<lparr>shape = [1, 2], data = [0, 0]\<rparr> tiny_messages = Inr (Some (1 / 2))"
  by (simp add: bitwise_avg_err_def np_subtract_def broadcast_tensors_def decoded_rounded_def
      np_round_def np_clip_def shape_at_def np_divide_def tiny_messages_def)

lemma tiny_train_on_batch:
  assumes "cfg ''adv_loss_weight'' = Some (CNum wa)" "cfg ''enc_loss_weight'' = Some (CNum we)"
    and "get_default cfg ''dec_loss_weight'' (CNum 1) = CNum wd"
  shows "train_on_batch tiny_env (new_model cfg) tiny_images tiny_messages =
     (Inr (losses_dict tiny_env (Some (wa * ln 2 + we * 0 + wd * (1 / 2))) (Some 0) (Some (1 / 2))
             (Some (1 / 2)) (Some (ln 2)) (Some (ln 2)) (Some (ln 2)),
           (\<lparr>shape = [1, 1, 1, 2], data = [0, 1]\<rparr>, \<lparr>shape = [1, 1, 1, 2], data = [0, 1]\<rparr>,
            \<lparr>shape = [1, 2], data = [0, 0]\<rparr>)),
      (new_model cfg)\<lparr>optimizer_discrim := 1, optimizer_enc_dec := 1,
         encoder_decoder := \<lparr>params = wd, grad = - wd, training = True\<rparr>,
         discriminator := \<lparr>params = 0, grad = - (wa / 2), training = True\<rparr>,
         calls := [ZeroGrad Discrim, DiscForward CoverImages, Backward DLossOnCover,
           EncDecForward, DiscForward EncodedDetached, Backward DLossOnEncoded, Step Discrim,
           ZeroGrad EncDec, DiscForward EncodedImages, Backward GLoss, Step EncDec]\<rparr>)"
proof -
  have m: "(new_model cfg)\<lparr>encoder_decoder := (encoder_decoder (new_model cfg))\<lparr>training := True\<rparr>,
             discriminator := (discriminator ((new_model cfg)\<lparr>encoder_decoder :=
                (encoder_decoder (new_model cfg))\<lparr>training := True\<rparr>\<rparr>))\<lparr>training := True\<rparr>\<rparr> = new_model cfg"
    by (simp add: new_model_def)
  have n: "shape_at tiny_images 0 = Inr 1"
    by (simp add: shape_at_def tiny_images_def)
  show ?thesis
    by (simp only: train_on_batch_def n sum.case Let_def m tiny_discriminator_phase prod.case
        tiny_generator_phase[OF assms] append.simps snd_conv tiny_bitwise)
qed

lemma tiny_losses_dict:
  "losses_dict tiny_env a b c d e f g =
     [(''unet_loss    '', a), (''encoder_mse  '', b), (''dec_mse      '', c), (''bitwise-error'', d),
      (''g_adv_bce    '', e), (''d_cov_bce    '', f), (''d_enc_bce    '', g)]"
  by (simp add: losses_dict_def OrderedDict_def tiny_env_def)

lemma tiny_config_weights:
  "tiny_config ''adv_loss_weight'' = Some (CNum 1)"
  "tiny_config ''enc_loss_weight'' = Some (CNum 1)"
  "get_default tiny_config ''dec_loss_weight'' (CNum 1) = CNum 1"
  by (simp_all add: tiny_config_def bare_config_def get_default_def)

section \<open>The order of the two phases\<close>



section \<open>The bitwise error\<close>















section \<open>What each phase changes\<close>

text \<open>
  Claim C2, as amended. In a call of \<open>train_on_batch\<close> that returns, let \<open>s1\<close> be the
  object right after the discriminator's step. The discriminator phase has changed
  neither the encoder-decoder's parameters nor the state of its optimizer, and the
  encoder-decoder's gradients are what they were when the call began: the loss on the
  detached encoded images adds nothing to them, and nothing has cleared them yet. The
  generator phase changes neither the discriminator's parameters nor the state of its
  optimizer.
\<close>

theorem train_on_batch_steps_own_parameters:
  assumes "train_on_batch env s images messages = (Inr (losses, outs), s')"
  shows "\<exists>n r r' s1.
      discriminator_phase env n images messages
         (s\<lparr>encoder_decoder := (encoder_decoder s)\<lparr>training := True\<rparr>,
            discriminator := (discriminator s)\<lparr>training := True\<rparr>\<rparr>) = (Inr r, s1)
    \<and> generator_phase env n images messages outs s1 = (Inr r', s')
    \<and> params (encoder_decoder s1) = params (encoder_decoder s)
    \<and> optimizer_enc_dec s1 = optimizer_enc_dec s
    \<and> grad (encoder_decoder s1) = grad (encoder_decoder s)
    \<and> params (discriminator s') = params (discriminator s1)
    \<and> optimizer_discrim s' = optimizer_discrim s1"
proof -
  define s0 where "s0 = s\<lparr>encoder_decoder := (encoder_decoder s)\<lparr>training := True\<rparr>,
            discriminator := (discriminator s)\<lparr>training := True\<rparr>\<rparr>"
  from train_on_batch_Inr[OF assms] obtain n lc le g ge gd ga s1 where
    d: "discriminator_phase env n images messages s0 = (Inr (lc, outs, le), s1)"
    and g: "generator_phase env n images messages outs s1 = (Inr (g, ge, gd, ga), s')"
    unfolding s0_def by blast
  from discriminator_phase_frame[OF d] have
    "params (encoder_decoder s1) = params (encoder_decoder s)"
    "optimizer_enc_dec s1 = optimizer_enc_dec s"
    "grad (encoder_decoder s1) = grad (encoder_decoder s)"
    by (simp_all add: s0_def)
  moreover from generator_phase_frame[OF g] have
    "params (discriminator s') = params (discriminator s1)"
    "optimizer_discrim s' = optimizer_discrim s1"
    by simp_all
  ultimately show ?thesis using d g unfolding s0_def by blast
qed

text \<open>The first call on the small instance is such a call.\<close>

theorem train_on_batch_steps_own_parameters_runs:
  "\<exists>n r r' s1.
      discriminator_phase tiny_env n tiny_images tiny_messages
         ((new_model tiny_config)\<lparr>encoder_decoder := (encoder_decoder (new_model tiny_config))\<lparr>training := True\<rparr>,
            discriminator := (discriminator (new_model tiny_config))\<lparr>training := True\<rparr>\<rparr>) = (Inr r, s1)
    \<and> generator_phase tiny_env n tiny_images tiny_messages
          (\<lparr>shape = [1, 1, 1, 2], data = [0, 1]\<rparr>, \<lparr>shape = [1, 1, 1, 2], data = [0, 1]\<rparr>,
            \<lparr>shape = [1, 2], data = [0, 0]\<rparr>) s1
        = (Inr r', snd (train_on_batch tiny_env (new_model tiny_config) tiny_images tiny_messages))
    \<and> params (encoder_decoder s1) = 0
    \<and> optimizer_enc_dec s1 = 0
    \<and> grad (encoder_decoder s1) = 0
    \<and> params (discriminator (snd (train_on_batch tiny_env (new_model tiny_config) tiny_images tiny_messages)))
        = params (discriminator s1)
    \<and> optimizer_discrim (snd (train_on_batch tiny_env (new_model tiny_config) tiny_images tiny_messages))
        = optimizer_discrim s1"
proof -
  note run = tiny_train_on_batch[OF tiny_config_weights]
  have z: "params (encoder_decoder (new_model tiny_config)) = 0"
    "optimizer_enc_dec (new_model tiny_config) = 0" "grad (encoder_decoder (new_model tiny_config)) = 0"
    by (simp_all add: new_model_def)
  from train_on_batch_steps_own_parameters[OF run] show ?thesis
    unfolding z run snd_conv .
qed

text \<open>
  The claim as stated fails on the second call: the gradient that the first call's
  generator phase left in the encoder-decoder (here \<open>- 1\<close>) is still there right after the
  second call's discriminator step.
\<close>

theorem stale_generator_gradient:
  "grad (encoder_decoder (snd (discriminator_phase tiny_env 1 tiny_images tiny_messages
      (snd (train_on_batch tiny_env (new_model tiny_config) tiny_images tiny_messages))))) = - 1
   \<and> grad (encoder_decoder (snd (discriminator_phase tiny_env 1 tiny_images tiny_messages
      (snd (train_on_batch tiny_env (new_model tiny_config) tiny_images tiny_messages))))) \<noteq> 0"
proof -
  note run = tiny_train_on_batch[OF tiny_config_weights]
  define s1 where "s1 = snd (train_on_batch tiny_env (new_model tiny_config) tiny_images tiny_messages)"
  have g: "grad (encoder_decoder s1) = - 1"
    unfolding s1_def run by simp
  have "discriminator_phase tiny_env 1 tiny_images tiny_messages s1 =
      (fst (discriminator_phase tiny_env 1 tiny_images tiny_messages s1),
       snd (discriminator_phase tiny_env 1 tiny_images tiny_messages s1))"
    by simp
  from discriminator_phase_frame[OF this] g
  have "grad (encoder_decoder (snd (discriminator_phase tiny_env 1 tiny_images tiny_messages s1))) = - 1"
    by simp
  then show ?thesis unfolding s1_def by simp
qed

section \<open>Validation, step by step\<close>

lemma validate_on_batch_frame:
  assumes "validate_on_batch env s images messages = (r, s')"
  shows "params (encoder_decoder s') = params (encoder_decoder s)
       \<and> grad (encoder_decoder s') = grad (encoder_decoder s)
       \<and> params (discriminator s') = params (discriminator s)
       \<and> grad (discriminator s') = grad (discriminator s)
       \<and> optimizer_enc_dec s' = optimizer_enc_dec s \<and> optimizer_discrim s' = optimizer_discrim s
       \<and> config s' = config s \<and> cover_label s' = cover_label s \<and> encoded_label s' = encoded_label s
       \<and> device s' = device s \<and> tb_logger s' = tb_logger s
       \<and> (\<exists>cs. calls s' = calls s @ cs
              \<and> set cs \<subseteq> {DiscForward CoverImages, EncDecForward, DiscForward EncodedImages})"
  using assms
  by (auto simp add: validate_on_batch_def Let_def log_call_def
      split: sum.splits prod.splits)

lemma validate_on_batch_Inr:
  assumes "validate_on_batch env s images messages = (Inr (losses, outs), s')"
  shows "\<exists>n d_on_cover d_on_encoded lc le g ge gd ga b.
      shape_at images 0 = Inr n
    \<and> disc_forward env (params (discriminator s)) False images = Inr d_on_cover
    \<and> binary_cross_entropy_with_logits d_on_cover (full [n, 1] (cover_label s)) = Inr lc
    \<and> encdec_forward env (params (encoder_decoder s)) False images messages = Inr outs
    \<and> disc_forward env (params (discriminator s)) False (fst outs) = Inr d_on_encoded
    \<and> binary_cross_entropy_with_logits d_on_encoded (full [n, 1] (encoded_label s)) = Inr le
    \<and> binary_cross_entropy_with_logits d_on_encoded (full [n, 1] (cover_label s)) = Inr ga
    \<and> mse_loss (fst outs) images = Inr ge
    \<and> mse_loss (snd (snd outs)) messages = Inr gd
    \<and> joint_loss (config s) ga ge gd = Inr g
    \<and> bitwise_avg_err n (snd (snd outs)) messages = Inr b
    \<and> losses = losses_dict env g ge gd b ga lc le
    \<and> training (encoder_decoder s') = False \<and> training (discriminator s') = False"
  using assms
  by (auto simp add: validate_on_batch_def Let_def log_call_def
      split: sum.splits prod.splits)

lemma validate_on_batch_reads:
  assumes "params (encoder_decoder t) = params (encoder_decoder s)"
    and "params (discriminator t) = params (discriminator s)"
    and "cover_label t = cover_label s" and "encoded_label t = encoded_label s"
    and "config t = config s"
  shows "fst (validate_on_batch env t images messages) = fst (validate_on_batch env s images messages)"
  using assms
  by (simp add: validate_on_batch_def Let_def log_call_def
      split: sum.splits prod.splits)

lemma tiny_validate_on_batch:
  assumes "cfg ''adv_loss_weight'' = Some (CNum wa)" "cfg ''enc_loss_weight'' = Some (CNum we)"
    and "get_default cfg ''dec_loss_weight'' (CNum 1) = CNum wd"
  shows "validate_on_batch tiny_env (new_model cfg) tiny_images tiny_messages =
     (Inr (losses_dict tiny_env (Some (wa * ln 2 + we * 0 + wd * (1 / 2))) (Some 0) (Some (1 / 2))
             (Some (1 / 2)) (Some (ln 2)) (Some (ln 2)) (Some (ln 2)),
           (\<lparr>shape = [1, 1, 1, 2], data = [0, 1]\<rparr>, \<lparr>shape = [1, 1, 1, 2], data = [0, 1]\<rparr>,
            \<lparr>shape = [1, 2], data = [0, 0]\<rparr>)),
      (new_model cfg)\<lparr>
         encoder_decoder := \<lparr>params = 0, grad = 0, training = False\<rparr>,
         discriminator := \<lparr>params = 0, grad = 0, training = False\<rparr>,
         calls := [DiscForward CoverImages, EncDecForward, DiscForward EncodedImages,
           DiscForward EncodedImages]\<rparr>)"
  using assms
  by (simp add: validate_on_batch_def Let_def log_call_def tiny_env_def shape_at_def
      new_model_def tiny_disc_forward_def tiny_encdec_forward_def tiny_images_def tiny_messages_def
      full_def binary_cross_entropy_with_logits_def mean_def bce_elem_def
      mse_loss_def broadcast_tensors_def joint_loss_numbers
      bitwise_avg_err_def np_subtract_def decoded_rounded_def np_round_def np_clip_def np_divide_def
      losses_dict_def)

section \<open>Validation leaves the model as it is\<close>

text \<open>
  Claim C5. Whatever its outcome, \<open>validate_on_batch\<close> changes no parameter, no gradient
  and no optimizer state; the only calls it makes are forward passes (no gradient is
  cleared, none is computed, no optimizer steps); and a second call with the same
  inputs, on the object the first call left, gives the same result: the same metrics
  and tensors, or the same exception.
\<close>

theorem validate_on_batch_changes_nothing:
  "params (encoder_decoder (snd (validate_on_batch env s images messages))) = params (encoder_decoder s)
   \<and> grad (encoder_decoder (snd (validate_on_batch env s images messages))) = grad (encoder_decoder s)
   \<and> params (discriminator (snd (validate_on_batch env s images messages))) = params (discriminator s)
   \<and> grad (discriminator (snd (validate_on_batch env s images messages))) = grad (discriminator s)
   \<and> optimizer_enc_dec (snd (validate_on_batch env s images messages)) = optimizer_enc_dec s
   \<and> optimizer_discrim (snd (validate_on_batch env s images messages)) = optimizer_discrim s
   \<and> (\<exists>cs. calls (snd (validate_on_batch env s images messages)) = calls s @ cs
          \<and> set cs \<subseteq> {DiscForward CoverImages, EncDecForward, DiscForward EncodedImages})
   \<and> fst (validate_on_batch env (snd (validate_on_batch env s images messages)) images messages)
       = fst (validate_on_batch env s images messages)"
proof -
  define s' where "s' = snd (validate_on_batch env s images messages)"
  have "validate_on_batch env s images messages = (fst (validate_on_batch env s images messages), s')"
    by (simp add: s'_def)
  note f = validate_on_batch_frame[OF this]
  from f have "fst (validate_on_batch env s' images messages) = fst (validate_on_batch env s images messages)"
    by (intro validate_on_batch_reads) simp_all
  with f show ?thesis unfolding s'_def by blast
qed

text \<open>On the small instance both calls return, with the same metrics.\<close>

theorem validate_on_batch_changes_nothing_runs:
  "fst (validate_on_batch tiny_env (new_model tiny_config) tiny_images tiny_messages) =
     Inr (losses_dict tiny_env (Some (1 * ln 2 + 1 * 0 + 1 * (1 / 2))) (Some 0) (Some (1 / 2))
             (Some (1 / 2)) (Some (ln 2)) (Some (ln 2)) (Some (ln 2)),
           (\<lparr>shape = [1, 1, 1, 2], data = [0, 1]\<rparr>, \<lparr>shape = [1, 1, 1, 2], data = [0, 1]\<rparr>,
            \<lparr>shape = [1, 2], data = [0, 0]\<rparr>))
   \<and> fst (validate_on_batch tiny_env
            (snd (validate_on_batch tiny_env (new_model tiny_config) tiny_images tiny_messages))
            tiny_images tiny_messages) =
     Inr (losses_dict tiny_env (Some (1 * ln 2 + 1 * 0 + 1 * (1 / 2))) (Some 0) (Some (1 / 2))
             (Some (1 / 2)) (Some (ln 2)) (Some (ln 2)) (Some (ln 2)),
           (\<lparr>shape = [1, 1, 1, 2], data = [0, 1]\<rparr>, \<lparr>shape = [1, 1, 1, 2], data = [0, 1]\<rparr>,
            \<lparr>shape = [1, 2], data = [0, 0]\<rparr>))"
proof -
  note run = tiny_validate_on_batch[OF tiny_config_weights]
  from validate_on_batch_changes_nothing[of tiny_env "new_model tiny_config" tiny_images tiny_messages]
  have "fst (validate_on_batch tiny_env
            (snd (validate_on_batch tiny_env (new_model tiny_config) tiny_images tiny_messages))
            tiny_images tiny_messages)
      = fst (validate_on_batch tiny_env (new_model tiny_config) tiny_images tiny_messages)"
    by blast
  then show ?thesis unfolding run fst_conv by simp
qed

section \<open>Display\<close>

text \<open>
  Claim C9. \<open>str\<close> and \<open>repr\<close> of the model are both the encoder-decoder's own description,
  and do not depend on the discriminator: replacing it changes neither.
\<close>

theorem str_is_encoder_decoder:
  "str_UnetModel env s = encdec_str env (encoder_decoder s)
   \<and> repr_UnetModel env s = encdec_str env (encoder_decoder s)
   \<and> str_UnetModel env (s\<lparr>discriminator := d\<rparr>) = str_UnetModel env s
   \<and> repr_UnetModel env (s\<lparr>discriminator := d\<rparr>) = repr_UnetModel env s"
  by (simp add: str_UnetModel_def repr_UnetModel_def)

section \<open>The train/eval flag\<close>

lemma train_on_batch_modes:
  assumes n: "shape_at images 0 = Inr n"
    and t: "train_on_batch env s images messages = (r, s')"
  shows "training (encoder_decoder s') \<and> training (discriminator s')"
proof -
  define s0 where "s0 = s\<lparr>encoder_decoder := (encoder_decoder s)\<lparr>training := True\<rparr>,
            discriminator := (discriminator s)\<lparr>training := True\<rparr>\<rparr>"
  have m0: "training (encoder_decoder s0)" "training (discriminator s0)"
    by (simp_all add: s0_def)
  obtain r1 s1 where d: "discriminator_phase env n images messages s0 = (r1, s1)"
    by fastforce
  from discriminator_phase_frame[OF d] m0
  have m1: "training (encoder_decoder s1)" "training (discriminator s1)" by simp_all
  show ?thesis
  proof (cases r1)
    case (Inl e)
    with t n d have "s' = s1"
      by (simp add: train_on_batch_def Let_def s0_def)
    with m1 show ?thesis by simp
  next
    case (Inr v)
    obtain lc outs le where v: "v = (lc, outs, le)" by (cases v) auto
    obtain r2 s2 where g: "generator_phase env n images messages outs s1 = (r2, s2)"
      by fastforce
    from generator_phase_frame[OF g] m1
    have m2: "training (encoder_decoder s2)" "training (discriminator s2)" by simp_all
    from t n d g Inr v have "s' = s2"
      by (auto simp add: train_on_batch_def Let_def s0_def split: sum.splits prod.splits)
    with m2 show ?thesis by simp
  qed
qed

lemma validate_on_batch_modes:
  assumes "shape_at images 0 = Inr n"
    and "validate_on_batch env s images messages = (r, s')"
  shows "\<not> training (encoder_decoder s') \<and> \<not> training (discriminator s')"
  using assms
  by (auto simp add: validate_on_batch_def Let_def log_call_def
      split: sum.splits prod.splits)

text \<open>
  Claim C10. Once the batch size has been read (the images have a batch dimension),
  \<open>train_on_batch\<close> leaves both sub-models in training mode and \<open>validate_on_batch\<close> leaves
  both in evaluation mode, whatever the mode they were in before and whatever the
  outcome of the call: neither restores the earlier mode. The mode then stays until
  the next of these calls: displaying the model does not touch it.
\<close>

theorem mode_switch_persists:
  assumes "shape images \<noteq> []"
  shows "training (encoder_decoder (snd (train_on_batch env s images messages)))
       \<and> training (discriminator (snd (train_on_batch env s images messages)))
       \<and> \<not> training (encoder_decoder (snd (validate_on_batch env s images messages)))
       \<and> \<not> training (discriminator (snd (validate_on_batch env s images messages)))"
proof -
  from assms have n: "shape_at images 0 = Inr (shape images ! 0)"
    by (simp add: shape_at_def)
  have t: "train_on_batch env s images messages =
      (fst (train_on_batch env s images messages), snd (train_on_batch env s images messages))"
    by simp
  have v: "validate_on_batch env s images messages =
      (fst (validate_on_batch env s images messages), snd (validate_on_batch env s images messages))"
    by simp
  from train_on_batch_modes[OF n t] validate_on_batch_modes[OF n v] show ?thesis by blast
qed

text \<open>
  The small instance: a new model is in training mode, validation leaves it in evaluation
  mode, and training on what validation left puts it back in training mode.
\<close>

theorem mode_switch_persists_runs:
  "shape tiny_images \<noteq> []
   \<and> training (encoder_decoder (new_model tiny_config))
   \<and> \<not> training (encoder_decoder (snd (validate_on_batch tiny_env (new_model tiny_config) tiny_images tiny_messages)))
   \<and> \<not> training (discriminator (snd (validate_on_batch tiny_env (new_model tiny_config) tiny_images tiny_messages)))
   \<and> training (encoder_decoder (snd (train_on_batch tiny_env
         (snd (validate_on_batch tiny_env (new_model tiny_config) tiny_images tiny_messages))
         tiny_images tiny_messages)))
   \<and> training (discriminator (snd (train_on_batch tiny_env
         (snd (validate_on_batch tiny_env (new_model tiny_config) tiny_images tiny_messages))
         tiny_images tiny_messages)))"
proof -
  have i: "shape tiny_images \<noteq> []" by (simp add: tiny_images_def)
  have m: "training (encoder_decoder (new_model tiny_config))" by (simp add: new_model_def)
  from mode_switch_persists[OF i, of tiny_env "new_model tiny_config" tiny_messages]
    mode_switch_persists[OF i, of tiny_env
      "snd (validate_on_batch tiny_env (new_model tiny_config) tiny_images tiny_messages)" tiny_messages]
    i m
  show ?thesis by blast
qed

section \<open>The joint loss\<close>

lemma joint_loss_Inr:
  assumes "joint_loss cfg ga ge gd = Inr g"
  shows "\<exists>wa we wd. cfg ''adv_loss_weight'' = Some (CNum wa) \<and> cfg ''enc_loss_weight'' = Some (CNum we)
      \<and> get_default cfg ''dec_loss_weight'' (CNum 1) = CNum wd
      \<and> g = scalar_add (scalar_add (map_option (\<lambda>v. wa * v) ga) (map_option (\<lambda>v. we * v) ge))
                (map_option (\<lambda>v. wd * v) gd)"
  using assms
  by (auto simp add: joint_loss_def getitem_def scalar_mul_def bindE_def
      split: option.splits cfgval.splits sum.splits)

lemma losses_dict_distinct:
  assumes "distinct (map (loss_name env)
     [unet_loss, encoder_mse, decoder_mse, bitwise, gen_adv_bce, discr_cov_bce, discr_enc_bce])"
  shows "losses_dict env a b c d e f g =
     [(loss_name env unet_loss, a), (loss_name env encoder_mse, b), (loss_name env decoder_mse, c),
      (loss_name env bitwise, d), (loss_name env gen_adv_bce, e), (loss_name env discr_cov_bce, f),
      (loss_name env discr_enc_bce, g)]"
  using assms by (simp add: losses_dict_def OrderedDict_def) 

lemma returns_joint_loss:
  assumes "train_on_batch env s images messages = (Inr (losses, outs), s')
         \<or> validate_on_batch env s images messages = (Inr (losses, outs), s')"
  shows "\<exists>g ge gd b ga lc le. losses = losses_dict env g ge gd b ga lc le
      \<and> joint_loss (config s) ga ge gd = Inr g"
  using assms
proof
  assume t: "train_on_batch env s images messages = (Inr (losses, outs), s')"
  from train_on_batch_Inr[OF t] obtain n lc le g ge gd ga b s1 where
    d: "discriminator_phase env n images messages
         (s\<lparr>encoder_decoder := (encoder_decoder s)\<lparr>training := True\<rparr>,
            discriminator := (discriminator s)\<lparr>training := True\<rparr>\<rparr>) = (Inr (lc, outs, le), s1)"
    and g: "generator_phase env n images messages outs s1 = (Inr (g, ge, gd, ga), s')"
    and l: "losses = losses_dict env g ge gd b ga lc le"
    by blast
  from discriminator_phase_frame[OF d] have "config s1 = config s" by simp
  moreover from generator_phase_Inr[OF g] have "joint_loss (config s1) ga ge gd = Inr g" by blast
  ultimately have "joint_loss (config s) ga ge gd = Inr g" by simp
  with l show ?thesis by blast
next
  assume v: "validate_on_batch env s images messages = (Inr (losses, outs), s')"
  from validate_on_batch_Inr[OF v] show ?thesis by blast
qed

text \<open>
  Claim C3. In the dictionary that \<open>train_on_batch\<close> or \<open>validate_on_batch\<close> returns (the
  names of the seven losses being distinct), the joint loss is the adversarial weight
  times the adversarial loss, plus the encoder weight times the encoder mean squared
  error, plus the decoder weight times the decoder mean squared error; the decoder
  weight is 1 when the configuration has no \<^verbatim>\<open>dec_loss_weight\<close>.
\<close>

theorem joint_loss_is_weighted_sum:
  assumes "train_on_batch env s images messages = (Inr (losses, outs), s')
         \<or> validate_on_batch env s images messages = (Inr (losses, outs), s')"
    and "distinct (map (loss_name env)
     [unet_loss, encoder_mse, decoder_mse, bitwise, gen_adv_bce, discr_cov_bce, discr_enc_bce])"
  shows "\<exists>wa we wd ga ge gd.
      config s ''adv_loss_weight'' = Some (CNum wa)
    \<and> config s ''enc_loss_weight'' = Some (CNum we)
    \<and> (config s ''dec_loss_weight'' = None \<longrightarrow> wd = 1)
    \<and> (\<forall>w. config s ''dec_loss_weight'' = Some w \<longrightarrow> w = CNum wd)
    \<and> map_of losses (loss_name env gen_adv_bce) = Some ga
    \<and> map_of losses (loss_name env encoder_mse) = Some ge
    \<and> map_of losses (loss_name env decoder_mse) = Some gd
    \<and> map_of losses (loss_name env unet_loss) =
        Some (scalar_add (scalar_add (map_option (\<lambda>v. wa * v) ga) (map_option (\<lambda>v. we * v) ge))
                (map_option (\<lambda>v. wd * v) gd))
    \<and> (\<forall>a e d. ga = Some a \<and> ge = Some e \<and> gd = Some d \<longrightarrow>
          map_of losses (loss_name env unet_loss) = Some (Some (wa * a + we * e + wd * d)))"
proof -
  from returns_joint_loss[OF assms(1)] obtain g ge gd b ga lc le where
    l: "losses = losses_dict env g ge gd b ga lc le"
    and j: "joint_loss (config s) ga ge gd = Inr g"
    by blast
  from joint_loss_Inr[OF j] obtain wa we wd where
    w: "config s ''adv_loss_weight'' = Some (CNum wa)" "config s ''enc_loss_weight'' = Some (CNum we)"
      "get_default (config s) ''dec_loss_weight'' (CNum 1) = CNum wd"
    and g: "g = scalar_add (scalar_add (map_option (\<lambda>v. wa * v) ga) (map_option (\<lambda>v. we * v) ge))
                (map_option (\<lambda>v. wd * v) gd)"
    by blast
  from w(3) have d1: "config s ''dec_loss_weight'' = None \<longrightarrow> wd = 1"
    and d2: "\<forall>w. config s ''dec_loss_weight'' = Some w \<longrightarrow> w = CNum wd"
    by (auto simp add: get_default_def split: option.splits)
  have l': "losses =
     [(loss_name env unet_loss, g), (loss_name env encoder_mse, ge), (loss_name env decoder_mse, gd),
      (loss_name env bitwise, b), (loss_name env gen_adv_bce, ga), (loss_name env discr_cov_bce, lc),
      (loss_name env discr_enc_bce, le)]"
    unfolding l by (rule losses_dict_distinct[OF assms(2)])
  have dl: "distinct (map fst losses)"
    unfolding l' using assms(2) by simp
  have m: "map_of losses (loss_name env gen_adv_bce) = Some ga"
    "map_of losses (loss_name env encoder_mse) = Some ge"
    "map_of losses (loss_name env decoder_mse) = Some gd"
    "map_of losses (loss_name env unet_loss) = Some g"
    unfolding map_of_eq_Some_iff[OF dl] by (simp_all add: l')
  have f: "\<forall>a e d. ga = Some a \<and> ge = Some e \<and> gd = Some d \<longrightarrow>
          map_of losses (loss_name env unet_loss) = Some (Some (wa * a + we * e + wd * d))"
    unfolding m g by (simp add: scalar_add_def)
  note u = m(4)[unfolded g]
  show ?thesis
    by (intro exI[of _ wa] exI[of _ we] exI[of _ wd] exI[of _ ga] exI[of _ ge] exI[of _ gd] conjI)
       (fact w(1) w(2) d1 d2 m(1) m(2) m(3) u f)+
qed

lemma negative_config_weights:
  "negative_config ''adv_loss_weight'' = Some (CNum 1)"
  "negative_config ''enc_loss_weight'' = Some (CNum 1)"
  "get_default negative_config ''dec_loss_weight'' (CNum 1) = CNum (- 4)"
  by (simp_all add: negative_config_def tiny_config_def bare_config_def get_default_def)

lemma tiny_names_distinct:
  "distinct (map (loss_name tiny_env)
     [unet_loss, encoder_mse, decoder_mse, bitwise, gen_adv_bce, discr_cov_bce, discr_enc_bce])"
  by (simp add: tiny_env_def)

lemma tiny_joint_loss_entry:
  assumes L: "L = losses_dict tiny_env j (Some e) (Some d) b (Some a) lc le"
    and w: "cfg ''adv_loss_weight'' = Some (CNum wa)" "cfg ''enc_loss_weight'' = Some (CNum we)"
    and wd: "cfg ''dec_loss_weight'' = None \<and> wd = 1 \<or> cfg ''dec_loss_weight'' = Some (CNum wd)"
    and main: "\<exists>wa we wd ga ge gd.
      config (new_model cfg) ''adv_loss_weight'' = Some (CNum wa)
    \<and> config (new_model cfg) ''enc_loss_weight'' = Some (CNum we)
    \<and> (config (new_model cfg) ''dec_loss_weight'' = None \<longrightarrow> wd = 1)
    \<and> (\<forall>w. config (new_model cfg) ''dec_loss_weight'' = Some w \<longrightarrow> w = CNum wd)
    \<and> map_of L (loss_name tiny_env gen_adv_bce) = Some ga
    \<and> map_of L (loss_name tiny_env encoder_mse) = Some ge
    \<and> map_of L (loss_name tiny_env decoder_mse) = Some gd
    \<and> map_of L (loss_name tiny_env unet_loss) =
        Some (scalar_add (scalar_add (map_option (\<lambda>v. wa * v) ga) (map_option (\<lambda>v. we * v) ge))
                (map_option (\<lambda>v. wd * v) gd))
    \<and> (\<forall>a e d. ga = Some a \<and> ge = Some e \<and> gd = Some d \<longrightarrow>
          map_of L (loss_name tiny_env unet_loss) = Some (Some (wa * a + we * e + wd * d)))"
  shows "map_of L (loss_name tiny_env unet_loss) = Some (Some (wa * a + we * e + wd * d))"
proof -
  have cfg: "config (new_model cfg) = cfg" by (simp add: new_model_def)
  from main obtain wa' we' wd' ga ge gd where
    1: "cfg ''adv_loss_weight'' = Some (CNum wa')"
    and 2: "cfg ''enc_loss_weight'' = Some (CNum we')"
    and 3: "cfg ''dec_loss_weight'' = None \<longrightarrow> wd' = 1"
    and 4: "\<forall>w. cfg ''dec_loss_weight'' = Some w \<longrightarrow> w = CNum wd'"
    and 5: "map_of L (loss_name tiny_env gen_adv_bce) = Some ga"
    and 6: "map_of L (loss_name tiny_env encoder_mse) = Some ge"
    and 7: "map_of L (loss_name tiny_env decoder_mse) = Some gd"
    and 8: "\<forall>a e d. ga = Some a \<and> ge = Some e \<and> gd = Some d \<longrightarrow>
          map_of L (loss_name tiny_env unet_loss) = Some (Some (wa' * a + we' * e + wd' * d))"
    unfolding cfg by (elim exE conjE)
  from 1 2 w have "wa' = wa" "we' = we" by simp_all
  moreover from 3 4 wd have "wd' = wd" by auto
  moreover from 5 6 7 have "ga = Some a" "ge = Some e" "gd = Some d"
    unfolding L tiny_losses_dict by (simp_all add: tiny_env_def)
  ultimately show ?thesis using 8 by simp
qed

text \<open>
  The small instance, trained with no \<^verbatim>\<open>dec_loss_weight\<close> in the configuration and
  validated with the weight \<open>- 4\<close>.
\<close>

theorem joint_loss_is_weighted_sum_runs:
  "tiny_config ''dec_loss_weight'' = None
   \<and> fst (train_on_batch tiny_env (new_model tiny_config) tiny_images tiny_messages) =
       Inr (losses_dict tiny_env (Some (1 * ln 2 + 1 * 0 + 1 * (1 / 2))) (Some 0) (Some (1 / 2))
             (Some (1 / 2)) (Some (ln 2)) (Some (ln 2)) (Some (ln 2)),
           (\<lparr>shape = [1, 1, 1, 2], data = [0, 1]\<rparr>, \<lparr>shape = [1, 1, 1, 2], data = [0, 1]\<rparr>,
            \<lparr>shape = [1, 2], data = [0, 0]\<rparr>))
   \<and> map_of (losses_dict tiny_env (Some (1 * ln 2 + 1 * 0 + 1 * (1 / 2))) (Some 0) (Some (1 / 2))
             (Some (1 / 2)) (Some (ln 2)) (Some (ln 2)) (Some (ln 2))) (loss_name tiny_env unet_loss)
       = Some (Some (1 * ln 2 + 1 * 0 + 1 * (1 / 2)))
   \<and> negative_config ''dec_loss_weight'' = Some (CNum (- 4))
   \<and> fst (validate_on_batch tiny_env (new_model negative_config) tiny_images tiny_messages) =
       Inr (losses_dict tiny_env (Some (1 * ln 2 + 1 * 0 + - 4 * (1 / 2))) (Some 0) (Some (1 / 2))
             (Some (1 / 2)) (Some (ln 2)) (Some (ln 2)) (Some (ln 2)),
           (\<lparr>shape = [1, 1, 1, 2], data = [0, 1]\<rparr>, \<lparr>shape = [1, 1, 1, 2], data = [0, 1]\<rparr>,
            \<lparr>shape = [1, 2], data = [0, 0]\<rparr>))
   \<and> map_of (losses_dict tiny_env (Some (1 * ln 2 + 1 * 0 + - 4 * (1 / 2))) (Some 0) (Some (1 / 2))
             (Some (1 / 2)) (Some (ln 2)) (Some (ln 2)) (Some (ln 2))) (loss_name tiny_env unet_loss)
       = Some (Some (1 * ln 2 + 1 * 0 + - 4 * (1 / 2)))"
proof -
  note t = tiny_train_on_batch[OF tiny_config_weights]
  note v = tiny_validate_on_batch[OF negative_config_weights]
  have c1: "tiny_config ''dec_loss_weight'' = None"
    by (simp add: tiny_config_def bare_config_def)
  have c2: "negative_config ''dec_loss_weight'' = Some (CNum (- 4))"
    by (simp add: negative_config_def)
  have d1: "tiny_config ''dec_loss_weight'' = None \<and> (1::real) = 1
      \<or> tiny_config ''dec_loss_weight'' = Some (CNum 1)"
    using c1 by simp
  have d2: "negative_config ''dec_loss_weight'' = None \<and> (- 4::real) = 1
      \<or> negative_config ''dec_loss_weight'' = Some (CNum (- 4))"
    using c2 by simp
  note r1 = tiny_joint_loss_entry[OF refl tiny_config_weights(1,2) d1
      joint_loss_is_weighted_sum[OF disjI1[OF t] tiny_names_distinct]]
  note r2 = tiny_joint_loss_entry[OF refl negative_config_weights(1,2) d2
      joint_loss_is_weighted_sum[OF disjI2[OF v] tiny_names_distinct]]
  have t': "fst (train_on_batch tiny_env (new_model tiny_config) tiny_images tiny_messages) =
       Inr (losses_dict tiny_env (Some (1 * ln 2 + 1 * 0 + 1 * (1 / 2))) (Some 0) (Some (1 / 2))
             (Some (1 / 2)) (Some (ln 2)) (Some (ln 2)) (Some (ln 2)),
           (\<lparr>shape = [1, 1, 1, 2], data = [0, 1]\<rparr>, \<lparr>shape = [1, 1, 1, 2], data = [0, 1]\<rparr>,
            \<lparr>shape = [1, 2], data = [0, 0]\<rparr>))"
    unfolding t fst_conv ..
  have v': "fst (validate_on_batch tiny_env (new_model negative_config) tiny_images tiny_messages) =
       Inr (losses_dict tiny_env (Some (1 * ln 2 + 1 * 0 + - 4 * (1 / 2))) (Some 0) (Some (1 / 2))
             (Some (1 / 2)) (Some (ln 2)) (Some (ln 2)) (Some (ln 2)),
           (\<lparr>shape = [1, 1, 1, 2], data = [0, 1]\<rparr>, \<lparr>shape = [1, 1, 1, 2], data = [0, 1]\<rparr>,
            \<lparr>shape = [1, 2], data = [0, 0]\<rparr>))"
    unfolding v fst_conv ..
  show ?thesis
    by (intro conjI) (fact c1 t' r1 c2 v' r2)+
qed

section \<open>When the collaborators accept the batch\<close>

lemma accepts_disc:
  assumes "accepts env images messages" "shape x \<noteq> []"
  obtains t where "disc_forward env p mode x = Inr t" "shape t = [hd (shape x), 1]" "wf_tensor t"
  using assms unfolding accepts_def by blast

lemma accepts_encdec:
  assumes "accepts env images messages"
  obtains e nz d where "encdec_forward env p mode images messages = Inr (e, nz, d)"
    "shape e = shape images" "wf_tensor e" "shape d = shape messages" "wf_tensor d"
  using assms unfolding accepts_def by blast

lemma accepts_shape_at:
  assumes "accepts env images messages"
  shows "shape_at images 0 = Inr (hd (shape images))"
    and "shape_at messages 1 = Inr (shape messages ! 1)"
  using assms unfolding accepts_def shape_at_def
  by (auto simp add: hd_conv_nth)

lemma bce_full_Inr:
  assumes "shape t = [n, 1]"
  shows "binary_cross_entropy_with_logits t (full [n, Suc 0] c) =
     Inr (mean (map2 bce_elem (data t) (replicate n c)))"
  using assms by (simp add: binary_cross_entropy_with_logits_def full_def)

lemma mse_loss_same_shape:
  assumes "shape a = shape b"
  shows "mse_loss a b = Inr (mean (map2 (\<lambda>x y. (x - y)\<^sup>2) (data a) (data b)))"
  using assms by (simp add: mse_loss_def broadcast_tensors_def)

lemma bitwise_avg_err_same_shape:
  assumes "shape d = shape messages" "2 \<le> length (shape messages)"
  shows "\<exists>b. bitwise_avg_err n d messages = Inr b"
  using assms
  by (simp add: bitwise_avg_err_def np_subtract_def broadcast_tensors_def decoded_rounded_def shape_at_def)

lemma discriminator_phase_returns:
  assumes acc: "accepts env images messages" and n: "n = hd (shape images)"
  shows "\<exists>lc e nz d le s1. discriminator_phase env n images messages s = (Inr (lc, (e, nz, d), le), s1)
      \<and> shape e = shape images \<and> shape d = shape messages"
proof -
  from acc have ne: "shape images \<noteq> []" unfolding accepts_def by simp
  from accepts_disc[OF acc ne] obtain t1 where
    t1: "disc_forward env (params (discriminator s)) (training (discriminator s)) images = Inr t1"
      "shape t1 = [n, 1]"
    unfolding n by blast
  from accepts_encdec[OF acc] obtain e nz d where
    ed: "encdec_forward env (params (encoder_decoder s)) (training (encoder_decoder s)) images messages
          = Inr (e, nz, d)" "shape e = shape images" "shape d = shape messages"
    by blast
  from ne ed(2) have "shape e \<noteq> []" by simp
  from accepts_disc[OF acc this] obtain t2 where
    t2: "disc_forward env (params (discriminator s)) (training (discriminator s)) e = Inr t2"
      "shape t2 = [n, 1]"
    unfolding n ed(2) by blast
  show ?thesis
    using t1(1) t2(1) ed
    by (simp add: discriminator_phase_def Let_def log_call_def zero_grad_def accumulate_def
        bce_full_Inr[OF t1(2)] bce_full_Inr[OF t2(2)])
qed

lemma generator_phase_outcome:
  assumes acc: "accepts env images messages" and n: "n = hd (shape images)"
    and e: "shape e = shape images" and d: "shape d = shape messages"
  shows "\<exists>ga ge gd.
      (\<forall>err. joint_loss (config s) ga ge gd = Inl err \<longrightarrow>
          fst (generator_phase env n images messages (e, nz, d) s) = Inl err)
    \<and> (\<forall>g. joint_loss (config s) ga ge gd = Inr g \<longrightarrow>
          fst (generator_phase env n images messages (e, nz, d) s) = Inr (g, ge, gd, ga))"
proof -
  from acc have ne: "shape images \<noteq> []" unfolding accepts_def by simp
  with e have "shape e \<noteq> []" by simp
  from accepts_disc[OF acc this] obtain t where
    t: "disc_forward env (params (discriminator s)) (training (discriminator s)) e = Inr t"
      "shape t = [n, 1]"
    unfolding n e by blast
  define ga where "ga = mean (map2 bce_elem (data t) (replicate n (cover_label s)))"
  define ge where "ge = mean (map2 (\<lambda>x y. (x - y)\<^sup>2) (data e) (data images))"
  define gd where "gd = mean (map2 (\<lambda>x y. (x - y)\<^sup>2) (data d) (data messages))"
  have "(\<forall>err. joint_loss (config s) ga ge gd = Inl err \<longrightarrow>
          fst (generator_phase env n images messages (e, nz, d) s) = Inl err)
    \<and> (\<forall>g. joint_loss (config s) ga ge gd = Inr g \<longrightarrow>
          fst (generator_phase env n images messages (e, nz, d) s) = Inr (g, ge, gd, ga))"
    using t(1)
    by (simp add: generator_phase_def Let_def log_call_def zero_grad_def accumulate_def
        bce_full_Inr[OF t(2)] mse_loss_same_shape[OF e] mse_loss_same_shape[OF d]
        ga_def ge_def gd_def)
  then show ?thesis by blast
qed

lemma train_on_batch_outcome:
  assumes acc: "accepts env images messages"
  shows "\<exists>ga ge gd.
      (\<forall>err. joint_loss (config s) ga ge gd = Inl err \<longrightarrow>
          fst (train_on_batch env s images messages) = Inl err)
    \<and> (\<forall>g. joint_loss (config s) ga ge gd = Inr g \<longrightarrow>
          (\<exists>r. fst (train_on_batch env s images messages) = Inr r))"
proof -
  define n where "n = hd (shape images)"
  define s0 where "s0 = s\<lparr>encoder_decoder := (encoder_decoder s)\<lparr>training := True\<rparr>,
            discriminator := (discriminator s)\<lparr>training := True\<rparr>\<rparr>"
  have sh: "shape_at images 0 = Inr n"
    unfolding n_def by (rule accepts_shape_at(1)[OF acc])
  from discriminator_phase_returns[OF acc n_def, of s0] obtain lc e nz d le s1 where
    dp: "discriminator_phase env n images messages s0 = (Inr (lc, (e, nz, d), le), s1)"
    and e: "shape e = shape images" and d: "shape d = shape messages"
    by blast
  from discriminator_phase_frame[OF dp] have cfg: "config s1 = config s"
    by (simp add: s0_def)
  from generator_phase_outcome[OF acc n_def e d, of s1 nz] obtain ga ge gd where
    bad: "\<And>err. joint_loss (config s) ga ge gd = Inl err \<Longrightarrow>
          fst (generator_phase env n images messages (e, nz, d) s1) = Inl err"
    and good: "\<And>g. joint_loss (config s) ga ge gd = Inr g \<Longrightarrow>
          fst (generator_phase env n images messages (e, nz, d) s1) = Inr (g, ge, gd, ga)"
    unfolding cfg by blast
  from acc have "2 \<le> length (shape messages)" unfolding accepts_def by simp
  from bitwise_avg_err_same_shape[OF d this] obtain b where
    b: "bitwise_avg_err n d messages = Inr b" by blast
  obtain r2 s2 where gp: "generator_phase env n images messages (e, nz, d) s1 = (r2, s2)"
    by fastforce
  have t: "train_on_batch env s images messages =
      (case r2 of Inl err \<Rightarrow> (Inl err, s2)
       | Inr (g, ge, gd, ga) \<Rightarrow> (Inr (losses_dict env g ge gd b ga lc le, (e, nz, d)), s2))"
    using sh dp[unfolded s0_def] gp b
    by (simp add: train_on_batch_def Let_def split: sum.splits prod.splits)
  have 1: "fst (train_on_batch env s images messages) = Inl err"
    if "joint_loss (config s) ga ge gd = Inl err" for err
    using bad[OF that] gp unfolding t by simp
  have 2: "\<exists>r. fst (train_on_batch env s images messages) = Inr r"
    if "joint_loss (config s) ga ge gd = Inr g" for g
    using good[OF that] gp unfolding t by simp
  from 1 2 show ?thesis by blast
qed

lemma validate_on_batch_outcome:
  assumes acc: "accepts env images messages"
  shows "\<exists>ga ge gd.
      (\<forall>err. joint_loss (config s) ga ge gd = Inl err \<longrightarrow>
          fst (validate_on_batch env s images messages) = Inl err)
    \<and> (\<forall>g. joint_loss (config s) ga ge gd = Inr g \<longrightarrow>
          (\<exists>r. fst (validate_on_batch env s images messages) = Inr r))"
proof -
  define n where "n = hd (shape images)"
  have sh: "shape_at images 0 = Inr n"
    unfolding n_def by (rule accepts_shape_at(1)[OF acc])
  from acc have ne: "shape images \<noteq> []" unfolding accepts_def by simp
  from accepts_disc[OF acc ne] obtain t1 where
    t1: "disc_forward env (params (discriminator s)) False images = Inr t1" "shape t1 = [n, 1]"
    unfolding n_def by blast
  from accepts_encdec[OF acc] obtain e nz d where
    ed: "encdec_forward env (params (encoder_decoder s)) False images messages = Inr (e, nz, d)"
    and e: "shape e = shape images" and d: "shape d = shape messages"
    by blast
  from ne e have "shape e \<noteq> []" by simp
  from accepts_disc[OF acc this] obtain t2 where
    t2: "disc_forward env (params (discriminator s)) False e = Inr t2" "shape t2 = [n, 1]"
    unfolding n_def e by blast
  from acc have "2 \<le> length (shape messages)" unfolding accepts_def by simp
  from bitwise_avg_err_same_shape[OF d this] obtain b where
    b: "bitwise_avg_err n d messages = Inr b" by blast
  define ga where "ga = mean (map2 bce_elem (data t2) (replicate n (cover_label s)))"
  define ge where "ge = mean (map2 (\<lambda>x y. (x - y)\<^sup>2) (data e) (data images))"
  define gd where "gd = mean (map2 (\<lambda>x y. (x - y)\<^sup>2) (data d) (data messages))"
  have "(\<forall>err. joint_loss (config s) ga ge gd = Inl err \<longrightarrow>
          fst (validate_on_batch env s images messages) = Inl err)
    \<and> (\<forall>g. joint_loss (config s) ga ge gd = Inr g \<longrightarrow>
          (\<exists>r. fst (validate_on_batch env s images messages) = Inr r))"
    using sh t1(1) ed t2(1) b
    by (simp add: validate_on_batch_def Let_def log_call_def
        bce_full_Inr[OF t1(2)] bce_full_Inr[OF t2(2)] mse_loss_same_shape[OF e] mse_loss_same_shape[OF d]
        ga_def ge_def gd_def)
  then show ?thesis by blast
qed

lemma joint_loss_no_adv:
  assumes "cfg ''adv_loss_weight'' = None"
  shows "joint_loss cfg a b c = Inl (KeyError ''adv_loss_weight'')"
  using assms by (simp add: joint_loss_def getitem_def)



lemma tiny_accepts: "accepts tiny_env tiny_images tiny_messages"
  by (auto simp add: accepts_def tiny_env_def tiny_images_def tiny_messages_def tiny_disc_forward_def
      tiny_encdec_forward_def full_def wf_tensor_def neq_Nil_conv)

section \<open>Where an exception can come from\<close>










lemma missing_adv_loss_weight:
  assumes acc: "accepts env images messages" and k: "config s ''adv_loss_weight'' = None"
  shows "fst (train_on_batch env s images messages) = Inl (KeyError ''adv_loss_weight'')"
    and "fst (validate_on_batch env s images messages) = Inl (KeyError ''adv_loss_weight'')"
proof -
  from train_on_batch_outcome[OF acc, of s] joint_loss_no_adv[where cfg = "config s", OF k]
  show "fst (train_on_batch env s images messages) = Inl (KeyError ''adv_loss_weight'')"
    by blast
  from validate_on_batch_outcome[OF acc, of s] joint_loss_no_adv[where cfg = "config s", OF k]
  show "fst (validate_on_batch env s images messages) = Inl (KeyError ''adv_loss_weight'')"
    by blast
qed

lemma bare_config_weights:
  "bare_config ''adv_loss_weight'' = None"
  "(bare_config(''adv_loss_weight'' \<mapsto> CNum 1)) ''adv_loss_weight'' = Some (CNum 1)"
  "(bare_config(''adv_loss_weight'' \<mapsto> CNum 1)) ''enc_loss_weight'' = None"
  "tiny_config ''dec_loss_weight'' = None"
  "bare_config ''message'' = Some (CNum 2)"
  by (simp_all add: bare_config_def tiny_config_def)

lemma config_new_model: "config (new_model cfg) = cfg"
  by (simp add: new_model_def)



section \<open>What the constructor reads\<close>

lemma getitem_Inr: "getitem cfg k = Inr v \<longleftrightarrow> cfg k = Some v"
  by (simp add: getitem_def split: option.splits)

lemma bindE_Inr: "bindE m f = Inr r \<longleftrightarrow> (\<exists>v. m = Inr v \<and> f v = Inr r)"
  by (cases m) simp_all

lemma init_Inr:
  assumes "init env cfg tb = Inr m"
  shows "(\<forall>k \<in> set init_keys. cfg k \<noteq> None) \<and> config m = cfg"
  using assms
  unfolding init_def bindE_Inr getitem_Inr init_keys_def
  by auto

lemma map_sum_bindE: "map_sum id h (bindE m f) = bindE m (\<lambda>x. map_sum id h (f x))"
  by (cases m) simp_all

lemma init_other_key:
  assumes "k \<notin> set init_keys"
  shows "init env (cfg(k := v)) tb = map_sum id (\<lambda>m. m\<lparr>config := cfg(k := v)\<rparr>) (init env cfg tb)"
proof -
  have g: "getitem (cfg(k := v)) k' = getitem cfg k'" if "k' \<in> set init_keys" for k'
    using that assms by (auto simp add: getitem_def)
  have ks: "''device'' \<in> set init_keys" "''noise'' \<in> set init_keys" "''main_command'' \<in> set init_keys"
    "''message'' \<in> set init_keys" "''encoder_blocks'' \<in> set init_keys"
    "''decoder_blocks'' \<in> set init_keys" "''decoder_channels'' \<in> set init_keys"
    "''decoder_block_type'' \<in> set init_keys" "''discriminator_channels'' \<in> set init_keys"
    "''discriminator_blocks'' \<in> set init_keys"
    by (simp_all add: init_keys_def)
  show ?thesis
    unfolding init_def map_sum_bindE ks[THEN g]
    by simp
qed


lemma init_first_missing:
  assumes "\<forall>v. \<exists>d. torch_device env v = Inr d"
    and "\<forall>v d. \<exists>n. Noiser env v d = Inr n"
    and "\<forall>a b c d e f g h. \<exists>p. UnetEncoderDecoder env a b c d e f g h = Inr p"
    and "\<forall>a b c. \<exists>p. Discriminator env a b c = Inr p"
  shows "(\<forall>k. find (\<lambda>k. cfg k = None) init_keys = Some k \<longrightarrow> init env cfg tb = Inl (KeyError k))
       \<and> (find (\<lambda>k. cfg k = None) init_keys = None \<longrightarrow> (\<exists>m. init env cfg tb = Inr m))"
proof -
  from assms(1) obtain fd where td: "\<And>v. torch_device env v = Inr (fd v)" by metis
  from assms(2) obtain fn where nz: "\<And>v d. Noiser env v d = Inr (fn v d)" by metis
  from assms(3) obtain fe where ed: "\<And>a b c d e f g h. UnetEncoderDecoder env a b c d e f g h = Inr (fe a b c d e f g h)"
    by metis
  from assms(4) obtain fp where di: "\<And>a b c. Discriminator env a b c = Inr (fp a b c)" by metis
  show ?thesis
    unfolding init_def init_keys_def getitem_def td nz ed di
    by (simp split: option.splits)
qed

text \<open>
  Claim C7, as amended. The constructor reads ten keys: \<^verbatim>\<open>device\<close>, \<^verbatim>\<open>noise\<close>,
  \<^verbatim>\<open>main_command\<close>, \<^verbatim>\<open>message\<close>, \<^verbatim>\<open>encoder_blocks\<close>, \<^verbatim>\<open>decoder_blocks\<close>, \<^verbatim>\<open>decoder_channels\<close>,
  \<^verbatim>\<open>decoder_block_type\<close>, \<^verbatim>\<open>discriminator_channels\<close> and \<^verbatim>\<open>discriminator_blocks\<close>. When one of
  them is absent, construction fails; when the collaborators' constructors succeed, it
  fails with the KeyError of the first absent key, and it succeeds when none is absent.
  The loss weights are not among the ten: construction does not read them, and gives
  the same result, but for the stored configuration, whether they are there or not.
  A model constructed without \<^verbatim>\<open>adv_loss_weight\<close> fails with that KeyError when it trains or
  validates on a batch that the collaborators accept.
\<close>

theorem constructor_reads_ten_keys:
  "(\<forall>k \<in> set init_keys. cfg k = None \<longrightarrow> (\<exists>e. init env cfg tb = Inl e))
   \<and> ((\<forall>v. \<exists>d. torch_device env v = Inr d) \<and> (\<forall>v d. \<exists>n. Noiser env v d = Inr n)
        \<and> (\<forall>a b c d e f g h. \<exists>p. UnetEncoderDecoder env a b c d e f g h = Inr p)
        \<and> (\<forall>a b c. \<exists>p. Discriminator env a b c = Inr p) \<longrightarrow>
          (\<forall>k. find (\<lambda>k. cfg k = None) init_keys = Some k \<longrightarrow> init env cfg tb = Inl (KeyError k))
        \<and> (find (\<lambda>k. cfg k = None) init_keys = None \<longrightarrow> (\<exists>m. init env cfg tb = Inr m)))
   \<and> ''adv_loss_weight'' \<notin> set init_keys \<and> ''enc_loss_weight'' \<notin> set init_keys
   \<and> (\<forall>k v. k \<notin> set init_keys \<longrightarrow>
          init env (cfg(k := v)) tb = map_sum id (\<lambda>m. m\<lparr>config := cfg(k := v)\<rparr>) (init env cfg tb))
   \<and> (\<forall>m. init env cfg tb = Inr m \<and> accepts env images messages \<and> cfg ''adv_loss_weight'' = None \<longrightarrow>
          fst (train_on_batch env m images messages) = Inl (KeyError ''adv_loss_weight'')
        \<and> fst (validate_on_batch env m images messages) = Inl (KeyError ''adv_loss_weight''))"
proof -
  have 1: "\<forall>k \<in> set init_keys. cfg k = None \<longrightarrow> (\<exists>e. init env cfg tb = Inl e)"
  proof (intro ballI impI)
    fix k assume k: "k \<in> set init_keys" "cfg k = None"
    show "\<exists>e. init env cfg tb = Inl e"
    proof (cases "init env cfg tb")
      case (Inl e)
      then show ?thesis by blast
    next
      case (Inr m)
      from init_Inr[OF this] k show ?thesis by blast
    qed
  qed
  have 2: "(\<forall>v. \<exists>d. torch_device env v = Inr d) \<and> (\<forall>v d. \<exists>n. Noiser env v d = Inr n)
        \<and> (\<forall>a b c d e f g h. \<exists>p. UnetEncoderDecoder env a b c d e f g h = Inr p)
        \<and> (\<forall>a b c. \<exists>p. Discriminator env a b c = Inr p) \<longrightarrow>
          (\<forall>k. find (\<lambda>k. cfg k = None) init_keys = Some k \<longrightarrow> init env cfg tb = Inl (KeyError k))
        \<and> (find (\<lambda>k. cfg k = None) init_keys = None \<longrightarrow> (\<exists>m. init env cfg tb = Inr m))"
    using init_first_missing[of env cfg tb] by blast
  have 3: "''adv_loss_weight'' \<notin> set init_keys" "''enc_loss_weight'' \<notin> set init_keys"
    by (simp_all add: init_keys_def)
  have 4: "\<forall>k v. k \<notin> set init_keys \<longrightarrow>
          init env (cfg(k := v)) tb = map_sum id (\<lambda>m. m\<lparr>config := cfg(k := v)\<rparr>) (init env cfg tb)"
    using init_other_key by blast
  have 5: "\<forall>m. init env cfg tb = Inr m \<and> accepts env images messages \<and> cfg ''adv_loss_weight'' = None \<longrightarrow>
          fst (train_on_batch env m images messages) = Inl (KeyError ''adv_loss_weight'')
        \<and> fst (validate_on_batch env m images messages) = Inl (KeyError ''adv_loss_weight'')"
  proof (intro allI impI)
    fix m
    assume a: "init env cfg tb = Inr m \<and> accepts env images messages \<and> cfg ''adv_loss_weight'' = None"
    then have i: "init env cfg tb = Inr m" and acc: "accepts env images messages"
      and k: "cfg ''adv_loss_weight'' = None" by simp_all
    from init_Inr[OF i] k have "config m ''adv_loss_weight'' = None" by simp
    from missing_adv_loss_weight[OF acc this]
    show "fst (train_on_batch env m images messages) = Inl (KeyError ''adv_loss_weight'')
        \<and> fst (validate_on_batch env m images messages) = Inl (KeyError ''adv_loss_weight'')" ..
  qed
  from 1 2 3 4 5 show ?thesis by blast
qed

lemma tiny_constructors:
  "\<forall>v. \<exists>d. torch_device tiny_env v = Inr d"
  "\<forall>v d. \<exists>n. Noiser tiny_env v d = Inr n"
  "\<forall>a b c d e f g h. \<exists>p. UnetEncoderDecoder tiny_env a b c d e f g h = Inr p"
  "\<forall>a b c. \<exists>p. Discriminator tiny_env a b c = Inr p"
  by (simp_all add: tiny_env_def)

lemma tiny_init_bare: "init tiny_env bare_config None = Inr (new_model bare_config)"
  by (simp add: init_def getitem_def tiny_env_def bare_config_def new_model_def)

lemma bare_config_keys:
  "find (\<lambda>k. bare_config k = None) init_keys = None"
  "find (\<lambda>k. (bare_config(''noise'' := None)) k = None) init_keys = Some ''noise''"
  "''noise'' \<in> set init_keys"
  "(bare_config(''noise'' := None)) ''noise'' = None"
  by (simp_all add: init_keys_def bare_config_def)

text \<open>
  The small instance: without \<^verbatim>\<open>noise\<close> construction fails with its KeyError; with the ten
  keys and no loss weight it succeeds, it gives the same model when \<^verbatim>\<open>adv_loss_weight\<close> is
  added, and the model without it fails when it trains or validates.
\<close>

theorem constructor_reads_ten_keys_runs:
  "init tiny_env (bare_config(''noise'' := None)) None = Inl (KeyError ''noise'')
   \<and> init tiny_env bare_config None = Inr (new_model bare_config)
   \<and> init tiny_env (bare_config(''adv_loss_weight'' \<mapsto> CNum 1)) None
       = Inr ((new_model bare_config)\<lparr>config := bare_config(''adv_loss_weight'' \<mapsto> CNum 1)\<rparr>)
   \<and> fst (train_on_batch tiny_env (new_model bare_config) tiny_images tiny_messages)
       = Inl (KeyError ''adv_loss_weight'')
   \<and> fst (validate_on_batch tiny_env (new_model bare_config) tiny_images tiny_messages)
       = Inl (KeyError ''adv_loss_weight'')"
proof -
  note c = tiny_constructors
  note k = bare_config_keys
  from constructor_reads_ten_keys[of "bare_config(''noise'' := None)" tiny_env None tiny_images tiny_messages]
    c k(2)
  have 1: "init tiny_env (bare_config(''noise'' := None)) None = Inl (KeyError ''noise'')"
    by blast
  note t = constructor_reads_ten_keys[of bare_config tiny_env None tiny_images tiny_messages]
  have 2: "init tiny_env bare_config None = Inr (new_model bare_config)"
    by (rule tiny_init_bare)
  from t have "''adv_loss_weight'' \<notin> set init_keys" by blast
  with t have "init tiny_env (bare_config(''adv_loss_weight'' := Some (CNum 1))) None
      = map_sum id (\<lambda>m. m\<lparr>config := bare_config(''adv_loss_weight'' := Some (CNum 1))\<rparr>)
          (init tiny_env bare_config None)"
    by blast
  then have 3: "init tiny_env (bare_config(''adv_loss_weight'' \<mapsto> CNum 1)) None
       = Inr ((new_model bare_config)\<lparr>config := bare_config(''adv_loss_weight'' \<mapsto> CNum 1)\<rparr>)"
    unfolding 2 by simp
  from t 2 tiny_accepts bare_config_weights(1)
  have 4: "fst (train_on_batch tiny_env (new_model bare_config) tiny_images tiny_messages)
       = Inl (KeyError ''adv_loss_weight'')
   \<and> fst (validate_on_batch tiny_env (new_model bare_config) tiny_images tiny_messages)
       = Inl (KeyError ''adv_loss_weight'')"
    by blast
  from 1 2 3 4 show ?thesis by blast
qed

text \<open>
  The claim as stated fails: with the ten keys and no \<^verbatim>\<open>adv_loss_weight\<close>, construction
  succeeds; the KeyError comes when the model first trains.
\<close>

theorem construction_succeeds_without_adv_loss_weight:
  "bare_config ''adv_loss_weight'' = None
   \<and> init tiny_env bare_config None = Inr (new_model bare_config)
   \<and> fst (train_on_batch tiny_env (new_model bare_config) tiny_images tiny_messages)
       = Inl (KeyError ''adv_loss_weight'')"
proof -
  have k: "config (new_model bare_config) ''adv_loss_weight'' = None"
    unfolding config_new_model by (rule bare_config_weights(1))
  from bare_config_weights(1) tiny_init_bare missing_adv_loss_weight(1)[OF tiny_accepts k]
  show ?thesis by blast
qed

section \<open>The signs of the losses\<close>




















end
